theory Spec2Isabelle
  imports Complex_Main "HOL-Library.Sublist"
begin

section \<open>JavaScript strings and values\<close>

text \<open>
  Strings are character lists. \<open>str_includes s t\<close> is \<^verbatim>\<open>s.includes(t)\<close>: \<open>t\<close> occurs in
  \<open>s\<close> as a contiguous substring.
\<close>

fun str_includes :: "string \<Rightarrow> string \<Rightarrow> bool" where
  "str_includes [] t = (t = [])"
| "str_includes (c # cs) t = (prefix t (c # cs) \<or> str_includes cs t)"

text \<open>
  \<^verbatim>\<open>filename.replace(/\.\./g, '')\<close> (src/main.ts, line 122): a single scan from the left
  that deletes every non-overlapping occurrence of two consecutive dots.
\<close>

fun replace_dotdot :: "string \<Rightarrow> string" where
  "replace_dotdot (c # d # cs) =
     (if c = CHR ''.'' \<and> d = CHR ''.'' then replace_dotdot cs
      else c # replace_dotdot (d # cs))"
| "replace_dotdot [c] = [c]"
| "replace_dotdot [] = []"

text \<open>
  \<^verbatim>\<open>workspace.replace(/\/+$/, '')\<close> (src/sandbox.ts, line 29): the trailing run of
  forward slashes is removed.
\<close>

definition strip_trailing_slashes :: "string \<Rightarrow> string" where
  "strip_trailing_slashes s = rev (dropWhile (\<lambda>c. c = CHR ''/'') (rev s))"

text \<open>
  Template interpolation of an integral number: its decimal digits, with a minus sign
  when negative.
\<close>

definition digit_char :: "nat \<Rightarrow> char" where
  "digit_char n = ''0123456789'' ! (n mod 10)"

fun show_nat :: "nat \<Rightarrow> string" where
  "show_nat n = (if n < 10 then [digit_char n] else show_nat (n div 10) @ [digit_char n])"

declare show_nat.simps [simp del]

definition show_int :: "int \<Rightarrow> string" where
  "show_int i = (if i < 0 then CHR ''-'' # show_nat (nat (- i)) else show_nat (nat i))"

text \<open>
  A number is the value of a double: a rational, an infinity, or NaN. The comparisons
  \<^verbatim>\<open>x < c\<close> and \<^verbatim>\<open>x > c\<close> of a number with a constant are false when \<open>x\<close> is NaN.
\<close>

datatype number = Finite rat | PosInfinity | NegInfinity | NaN

fun less_than :: "number \<Rightarrow> rat \<Rightarrow> bool" where
  "less_than (Finite r) c = (r < c)"
| "less_than PosInfinity c = False"
| "less_than NegInfinity c = True"
| "less_than NaN c = False"

fun greater_than :: "number \<Rightarrow> rat \<Rightarrow> bool" where
  "greater_than (Finite r) c = (c < r)"
| "greater_than PosInfinity c = True"
| "greater_than NegInfinity c = False"
| "greater_than NaN c = False"

text \<open>
  The values a parsed JSON body can hold in a field; \<open>JUndefined\<close> is an absent field.
  \<open>JObject s\<close> stands for an array or an object, \<open>s\<close> being the string it converts to
  (\<^verbatim>\<open>1,2\<close> for the array of 1 and 2, \<^verbatim>\<open>[object Object]\<close> for an object).
\<close>

datatype jsval = JUndefined | JNull | JBool bool | JNum number | JStr string | JObject string

fun truthy :: "jsval \<Rightarrow> bool" where
  "truthy JUndefined = False"
| "truthy JNull = False"
| "truthy (JBool b) = b"
| "truthy (JNum n) = (n \<noteq> Finite 0 \<and> n \<noteq> NaN)"
| "truthy (JStr s) = (s \<noteq> [])"
| "truthy (JObject s) = True"

fun js_typeof :: "jsval \<Rightarrow> string" where
  "js_typeof JUndefined = ''undefined''"
| "js_typeof JNull = ''object''"
| "js_typeof (JBool b) = ''boolean''"
| "js_typeof (JNum n) = ''number''"
| "js_typeof (JStr s) = ''string''"
| "js_typeof (JObject s) = ''object''"

text \<open>
  Thrown values. The class is what \<^verbatim>\<open>instanceof\<close> tests; \<open>error_to_string\<close> is
  \<^verbatim>\<open>String(error)\<close>, that is \<^verbatim>\<open>Error.prototype.toString\<close>.
\<close>

datatype error_class = NotFound | AlreadyExists | PermissionDenied | DOMException | TypeError | OtherError

datatype js_error = JsError (err_class: error_class) (err_name: string) (err_message: string)

definition error_to_string :: "js_error \<Rightarrow> string" where
  "error_to_string e =
     (if err_name e = [] then err_message e
      else if err_message e = [] then err_name e
      else err_name e @ '': '' @ err_message e)"

section \<open>The runtime: file system, subprocesses, randomness\<close>

record file_info =
  st_isFile :: bool
  st_isDirectory :: bool
  st_size :: nat
  st_mtime :: "nat option"

record dir_entry =
  de_name :: string
  de_isFile :: bool
  de_isDirectory :: bool

record command_output =
  out_success :: bool
  out_stdout :: string
  out_stderr :: string

text \<open>
  How \<^verbatim>\<open>await command.output()\<close> ends: it resolves with the collected output, and
  \<^verbatim>\<open>signal.aborted\<close> read right after is the flag; or it rejects with an error.
\<close>

datatype spawn_outcome = Resolved command_output bool | Rejected js_error

text \<open>
  The Deno runtime is a parameter of the program: a record of the operations the source
  calls, over a world \<open>'w\<close> that is left abstract. \<^verbatim>\<open>Deno.stat\<close>, \<^verbatim>\<open>Deno.readTextFile\<close>,
  \<^verbatim>\<open>Deno.readDir\<close> and \<^verbatim>\<open>Deno.open\<close> (followed by reading the stream to its end) observe
  the world; the others may change it, also when they throw. A thrown error is \<open>Inl\<close>
  or \<open>Some\<close>. \<open>rt_randomUUID\<close> yields the 128 random bits of \<^verbatim>\<open>crypto.randomUUID()\<close> as a
  number; \<open>rt_command_output\<close> takes the program, its arguments and the value handed to
  \<^verbatim>\<open>setTimeout\<close> as the delay of the abort timer. Two conversions of the language are
  parameters too: the number that a non-empty string converts to, and the text of a
  number that is not an integer of fewer than 22 digits.
\<close>

record 'w runtime =
  rt_stat :: "string \<Rightarrow> 'w \<Rightarrow> js_error + file_info"
  rt_mkdir :: "string \<Rightarrow> 'w \<Rightarrow> js_error option \<times> 'w"
  rt_readTextFile :: "string \<Rightarrow> 'w \<Rightarrow> js_error + string"
  rt_writeTextFile :: "string \<Rightarrow> string \<Rightarrow> 'w \<Rightarrow> js_error option \<times> 'w"
  rt_remove :: "string \<Rightarrow> 'w \<Rightarrow> js_error option \<times> 'w"
  rt_readDir :: "string \<Rightarrow> 'w \<Rightarrow> js_error + dir_entry list"
  rt_open :: "string \<Rightarrow> 'w \<Rightarrow> js_error + string"
  rt_randomUUID :: "'w \<Rightarrow> nat \<times> 'w"
  rt_command_output :: "string \<Rightarrow> string list \<Rightarrow> jsval \<Rightarrow> 'w \<Rightarrow> spawn_outcome \<times> 'w"
  rt_StringToNumber :: "string \<Rightarrow> number"
  rt_NumberToString :: "rat \<Rightarrow> string"

text \<open>
  \<open>ToNumber\<close> is the conversion that \<^verbatim>\<open><\<close> and \<^verbatim>\<open>>\<close> apply to an operand compared with
  a number; \<open>ToString\<close> is the conversion of a template literal.
\<close>

fun ToNumber :: "'w runtime \<Rightarrow> jsval \<Rightarrow> number" where
  "ToNumber rt JUndefined = NaN"
| "ToNumber rt JNull = Finite 0"
| "ToNumber rt (JBool b) = Finite (if b then 1 else 0)"
| "ToNumber rt (JNum n) = n"
| "ToNumber rt (JStr s) = (if s = [] then Finite 0 else rt_StringToNumber rt s)"
| "ToNumber rt (JObject s) = (if s = [] then Finite 0 else rt_StringToNumber rt s)"

fun number_to_string :: "'w runtime \<Rightarrow> number \<Rightarrow> string" where
  "number_to_string rt (Finite r) =
     (if of_int \<lfloor>r\<rfloor> = r \<and> \<bar>r\<bar> < 10 ^ 21 then show_int \<lfloor>r\<rfloor> else rt_NumberToString rt r)"
| "number_to_string rt PosInfinity = ''Infinity''"
| "number_to_string rt NegInfinity = ''-Infinity''"
| "number_to_string rt NaN = ''NaN''"

fun ToString :: "'w runtime \<Rightarrow> jsval \<Rightarrow> string" where
  "ToString rt JUndefined = ''undefined''"
| "ToString rt JNull = ''null''"
| "ToString rt (JBool b) = (if b then ''true'' else ''false'')"
| "ToString rt (JNum n) = number_to_string rt n"
| "ToString rt (JStr s) = s"
| "ToString rt (JObject s) = s"

text \<open>
  Every call that touches storage or starts a process is logged, in order, beside the
  world: the state of a handler is the pair of both.
\<close>

datatype call =
    Stat string
  | Mkdir string
  | ReadTextFile string
  | WriteTextFile string string
  | Remove string
  | ReadDir string
  | Open string
  | Command string "string list"

type_synonym 'w state = "'w \<times> call list"

definition Deno_stat :: "'w runtime \<Rightarrow> string \<Rightarrow> 'w state \<Rightarrow> (js_error + file_info) \<times> 'w state" where
  "Deno_stat rt p s = (rt_stat rt p (fst s), (fst s, snd s @ [Stat p]))"

definition Deno_mkdir :: "'w runtime \<Rightarrow> string \<Rightarrow> 'w state \<Rightarrow> js_error option \<times> 'w state" where
  "Deno_mkdir rt p s =
     (fst (rt_mkdir rt p (fst s)), (snd (rt_mkdir rt p (fst s)), snd s @ [Mkdir p]))"

definition Deno_readTextFile :: "'w runtime \<Rightarrow> string \<Rightarrow> 'w state \<Rightarrow> (js_error + string) \<times> 'w state" where
  "Deno_readTextFile rt p s = (rt_readTextFile rt p (fst s), (fst s, snd s @ [ReadTextFile p]))"

definition Deno_writeTextFile ::
  "'w runtime \<Rightarrow> string \<Rightarrow> string \<Rightarrow> 'w state \<Rightarrow> js_error option \<times> 'w state" where
  "Deno_writeTextFile rt p c s =
     (fst (rt_writeTextFile rt p c (fst s)),
      (snd (rt_writeTextFile rt p c (fst s)), snd s @ [WriteTextFile p c]))"

definition Deno_remove :: "'w runtime \<Rightarrow> string \<Rightarrow> 'w state \<Rightarrow> js_error option \<times> 'w state" where
  "Deno_remove rt p s =
     (fst (rt_remove rt p (fst s)), (snd (rt_remove rt p (fst s)), snd s @ [Remove p]))"

definition Deno_readDir :: "'w runtime \<Rightarrow> string \<Rightarrow> 'w state \<Rightarrow> (js_error + dir_entry list) \<times> 'w state" where
  "Deno_readDir rt p s = (rt_readDir rt p (fst s), (fst s, snd s @ [ReadDir p]))"

definition Deno_open :: "'w runtime \<Rightarrow> string \<Rightarrow> 'w state \<Rightarrow> (js_error + string) \<times> 'w state" where
  "Deno_open rt p s = (rt_open rt p (fst s), (fst s, snd s @ [Open p]))"

definition Deno_Command_output ::
  "'w runtime \<Rightarrow> string \<Rightarrow> string list \<Rightarrow> jsval \<Rightarrow> 'w state \<Rightarrow> spawn_outcome \<times> 'w state" where
  "Deno_Command_output rt prog args t s =
     (fst (rt_command_output rt prog args t (fst s)),
      (snd (rt_command_output rt prog args t (fst s)), snd s @ [Command prog args]))"

text \<open>
  \<^verbatim>\<open>crypto.randomUUID()\<close>: 32 lower-case hexadecimal digits of the random number in the
  groups 8-4-4-4-12 (the version and variant digits are not singled out).
\<close>

definition hex_char :: "nat \<Rightarrow> char" where
  "hex_char n = ''0123456789abcdef'' ! (n mod 16)"

fun hex_digits :: "nat \<Rightarrow> nat \<Rightarrow> string" where
  "hex_digits 0 n = []"
| "hex_digits (Suc k) n = hex_digits k (n div 16) @ [hex_char n]"

definition uuid_string :: "nat \<Rightarrow> string" where
  "uuid_string u =
     (let h = hex_digits 32 u
      in take 8 h @ ''-'' @ take 4 (drop 8 h) @ ''-'' @ take 4 (drop 12 h) @ ''-'' @
         take 4 (drop 16 h) @ ''-'' @ drop 20 h)"

definition randomUUID :: "'w runtime \<Rightarrow> 'w state \<Rightarrow> string \<times> 'w state" where
  "randomUUID rt s =
     (uuid_string (fst (rt_randomUUID rt (fst s))), (snd (rt_randomUUID rt (fst s)), snd s))"

section \<open>src/sandbox.ts\<close>

text \<open>
  The interface declares \<^verbatim>\<open>timeout\<close> and \<^verbatim>\<open>memoryLimit\<close> as numbers; the execute endpoint
  hands on whatever value the body holds, so they are values here.
\<close>

record RunSandboxOptions =
  code :: string
  workspace :: string
  timeout :: jsval
  memoryLimit :: jsval

record SandboxResult =
  success :: bool
  stdout :: string
  stderr :: string
  timedOut :: bool
  error :: "string option"

text \<open>Lines 27 to 29: the name and the path of the temporary script.\<close>

definition script_name :: "string \<Rightarrow> string" where
  "script_name scriptId = ''sandbox_'' @ scriptId @ ''.ts''"

definition script_path :: "string \<Rightarrow> string \<Rightarrow> string" where
  "script_path ws scriptId = strip_trailing_slashes ws @ ''/'' @ script_name scriptId"

text \<open>
  Lines 43 to 51: the argument list; \<^verbatim>\<open>.filter(Boolean)\<close> drops the empty string that
  stands for the memory flag when \<^verbatim>\<open>memoryLimit\<close> is falsy.
\<close>

definition sandbox_args :: "'w runtime \<Rightarrow> string \<Rightarrow> jsval \<Rightarrow> string \<Rightarrow> string list" where
  "sandbox_args rt ws mem scriptPath =
     filter (\<lambda>a. a \<noteq> [])
       [''run'',
        ''--no-remote'',
        ''--no-npm'',
        ''--allow-read='' @ ws,
        ''--allow-write='' @ ws,
        (if truthy mem then ''--v8-flags=--max-old-space-size='' @ ToString rt mem else []),
        scriptPath]"

text \<open>
  Lines 57 to 100: the result of the \<^verbatim>\<open>try\<close> block and of its \<^verbatim>\<open>catch\<close>, by the way
  \<^verbatim>\<open>command.output()\<close> ended.
\<close>

definition is_abort_error :: "js_error \<Rightarrow> bool" where
  "is_abort_error e = (err_class e = DOMException \<and> err_name e = ''AbortError'')"

fun sandbox_result :: "spawn_outcome \<Rightarrow> SandboxResult" where
  "sandbox_result (Resolved out aborted) =
     (if aborted
      then \<lparr>success = False, stdout = out_stdout out, stderr = ''Execution timed out'',
            timedOut = True, error = Some ''Timeout''\<rparr>
      else \<lparr>success = out_success out, stdout = out_stdout out, stderr = out_stderr out,
            timedOut = False, error = None\<rparr>)"
| "sandbox_result (Rejected e) =
     (if is_abort_error e
      then \<lparr>success = False, stdout = [], stderr = ''Execution timed out'',
            timedOut = True, error = Some ''Timeout''\<rparr>
      else \<lparr>success = False, stdout = [], stderr = error_to_string e,
            timedOut = False, error = Some (error_to_string e)\<rparr>)"

text \<open>
  Lines 19 to 32, before the \<^verbatim>\<open>try\<close>: the workspace directory is made when
  \<^verbatim>\<open>Deno.stat\<close> throws, and the code is written to the script file. An error thrown by
  \<^verbatim>\<open>Deno.mkdir\<close> or \<^verbatim>\<open>Deno.writeTextFile\<close> leaves \<open>run_sandbox\<close> as it is (\<open>Inl\<close>).
\<close>

definition prepare_script ::
  "'w runtime \<Rightarrow> RunSandboxOptions \<Rightarrow> 'w state \<Rightarrow> (js_error + string) \<times> 'w state" where
  "prepare_script rt options s0 =
     (case Deno_stat rt (workspace options) s0 of (st, s1) \<Rightarrow>
       (case (case st of Inl _ \<Rightarrow> Deno_mkdir rt (workspace options) s1 | Inr _ \<Rightarrow> (None, s1)) of
          (Some e, s2) \<Rightarrow> (Inl e, s2)
        | (None, s2) \<Rightarrow>
            (case randomUUID rt s2 of (scriptId, s3) \<Rightarrow>
              (case Deno_writeTextFile rt (script_path (workspace options) scriptId)
                      (code options) s3 of
                 (Some e, s4) \<Rightarrow> (Inl e, s4)
               | (None, s4) \<Rightarrow> (Inr (script_path (workspace options) scriptId), s4)))))"

text \<open>
  Lines 34 to 108: the subprocess is run under the abort timer, its end is turned into
  the result, and the \<^verbatim>\<open>finally\<close> block removes the script, ignoring what
  \<^verbatim>\<open>Deno.remove\<close> throws.
\<close>

definition run_script ::
  "'w runtime \<Rightarrow> RunSandboxOptions \<Rightarrow> string \<Rightarrow> 'w state \<Rightarrow> SandboxResult \<times> 'w state" where
  "run_script rt options scriptPath s0 =
     (case Deno_Command_output rt ''deno''
             (sandbox_args rt (workspace options) (memoryLimit options) scriptPath)
             (timeout options) s0 of (oc, s1) \<Rightarrow>
       (case Deno_remove rt scriptPath s1 of (_, s2) \<Rightarrow> (sandbox_result oc, s2)))"

definition run_sandbox ::
  "'w runtime \<Rightarrow> RunSandboxOptions \<Rightarrow> 'w state \<Rightarrow> (js_error + SandboxResult) \<times> 'w state" where
  "run_sandbox rt options s0 =
     (case prepare_script rt options s0 of
        (Inl e, s1) \<Rightarrow> (Inl e, s1)
      | (Inr scriptPath, s1) \<Rightarrow>
          (case run_script rt options scriptPath s1 of (r, s2) \<Rightarrow> (Inr r, s2)))"

section \<open>src/main.ts\<close>

text \<open>
  A response is a status and a JSON body (or, for a download, the streamed bytes with
  the file name of the Content-Disposition header). \<open>json\<close> is \<^verbatim>\<open>c.json(body, status)\<close>,
  whose status is 200 when none is given.
\<close>

record file_entry =
  fe_name :: string
  fe_isFile :: bool
  fe_isDirectory :: bool
  fe_size :: nat
  fe_modified :: "nat option"

datatype reply =
    ErrorReply string "string option"
  | SuccessReply string
  | ContentReply string
  | FilesReply "file_entry list"
  | ResultReply SandboxResult
  | StreamReply string string

record response =
  status :: nat
  reply :: reply

definition json :: "reply \<Rightarrow> nat \<Rightarrow> response" where
  "json b st = \<lparr>status = st, reply = b\<rparr>"

definition internal_server_error :: "js_error \<Rightarrow> response" where
  "internal_server_error e =
     json (ErrorReply ''Internal server error'' (Some (error_to_string e))) 500"

text \<open>
  The parsed bodies. \<^verbatim>\<open>content\<close> is a string when present (docs/api.md); the fields the
  handlers test or compare dynamically are arbitrary values. A handler receives
  \<open>Inl e\<close> for its body when \<^verbatim>\<open>await c.req.json()\<close> or the destructuring of the body
  throws \<open>e\<close>.
\<close>

record execute_body =
  body_code :: jsval
  body_timeout :: jsval
  body_memoryLimit :: jsval

record files_body =
  body_action :: jsval
  body_filename :: jsval
  body_content :: "string option"

text \<open>
  Line 74: \<^verbatim>\<open>const { code, timeout = 5000, memoryLimit = 50 } = body\<close>; a default stands
  in for an absent field.
\<close>

definition destructured_timeout :: "execute_body \<Rightarrow> jsval" where
  "destructured_timeout b =
     (if body_timeout b = JUndefined then JNum (Finite 5000) else body_timeout b)"

definition destructured_memoryLimit :: "execute_body \<Rightarrow> jsval" where
  "destructured_memoryLimit b =
     (if body_memoryLimit b = JUndefined then JNum (Finite 50) else body_memoryLimit b)"

text \<open>Lines 89 to 94: the options handed to \<open>run_sandbox\<close>, once the body is valid.\<close>

definition sandbox_options :: "string \<Rightarrow> execute_body \<Rightarrow> RunSandboxOptions" where
  "sandbox_options ws b =
     \<lparr>code = (case body_code b of JStr c \<Rightarrow> c | _ \<Rightarrow> []),
      workspace = ws,
      timeout = destructured_timeout b,
      memoryLimit = destructured_memoryLimit b\<rparr>"

text \<open>
  Lines 68 to 101: \<^verbatim>\<open>POST /:workspace/execute\<close>. The guards of lines 80 and 84 compare
  the values with \<^verbatim>\<open><\<close> and \<^verbatim>\<open>>\<close> as they are, without a test of their type.
\<close>

definition execute_handler ::
  "'w runtime \<Rightarrow> string \<Rightarrow> js_error + execute_body \<Rightarrow> 'w state \<Rightarrow> response \<times> 'w state" where
  "execute_handler rt ws body s =
     (case body of
        Inl e \<Rightarrow> (internal_server_error e, s)
      | Inr b \<Rightarrow>
          if \<not> truthy (body_code b) \<or> js_typeof (body_code b) \<noteq> ''string''
          then (json (ErrorReply ''Code is required and must be a string'' None) 400, s)
          else if less_than (ToNumber rt (destructured_timeout b)) 100 \<or>
                  greater_than (ToNumber rt (destructured_timeout b)) 30000
          then (json (ErrorReply ''Timeout must be between 100ms and 30000ms'' None) 400, s)
          else if less_than (ToNumber rt (destructured_memoryLimit b)) 10 \<or>
                  greater_than (ToNumber rt (destructured_memoryLimit b)) 500
          then (json (ErrorReply ''Memory limit must be between 10MB and 500MB'' None) 400, s)
          else (case run_sandbox rt (sandbox_options ws b) s of
                  (Inl e, s') \<Rightarrow> (internal_server_error e, s')
                | (Inr r, s') \<Rightarrow> (json (ResultReply r) 200, s')))"

text \<open>
  Line 122: \<^verbatim>\<open>filename ? `${workspacePath}/${filename.replace(/\.\./g, '')}` : null\<close>. A
  truthy value that is not a string has no \<^verbatim>\<open>replace\<close>: the call throws a TypeError.
\<close>

definition file_path :: "string \<Rightarrow> jsval \<Rightarrow> js_error + string option" where
  "file_path workspacePath filename =
     (if truthy filename
      then (case filename of
              JStr f \<Rightarrow> Inr (Some (workspacePath @ ''/'' @ replace_dotdot f))
            | _ \<Rightarrow> Inl (JsError TypeError ''TypeError'' ''filename.replace is not a function''))
      else Inr None)"

text \<open>Lines 125 to 143: the entries of the workspace directory, each with its stat.\<close>

fun list_entries ::
  "'w runtime \<Rightarrow> string \<Rightarrow> dir_entry list \<Rightarrow> 'w state \<Rightarrow> (js_error + file_entry list) \<times> 'w state" where
  "list_entries rt workspacePath [] s = (Inr [], s)"
| "list_entries rt workspacePath (e # es) s =
     (case Deno_stat rt (workspacePath @ ''/'' @ de_name e) s of
        (Inl err, s1) \<Rightarrow> (Inl err, s1)
      | (Inr st, s1) \<Rightarrow>
          (case list_entries rt workspacePath es s1 of
             (Inl err, s2) \<Rightarrow> (Inl err, s2)
           | (Inr rest, s2) \<Rightarrow>
               (Inr (\<lparr>fe_name = de_name e, fe_isFile = de_isFile e,
                       fe_isDirectory = de_isDirectory e, fe_size = st_size st,
                       fe_modified = st_mtime st\<rparr> # rest), s2)))"

definition files_list :: "'w runtime \<Rightarrow> string \<Rightarrow> 'w state \<Rightarrow> response \<times> 'w state" where
  "files_list rt workspacePath s =
     (case Deno_readDir rt workspacePath s of
        (Inl e, s1) \<Rightarrow> (json (ErrorReply ''Failed to list files'' (Some (error_to_string e))) 500, s1)
      | (Inr es, s1) \<Rightarrow>
          (case list_entries rt workspacePath es s1 of
             (Inl e, s2) \<Rightarrow>
               (json (ErrorReply ''Failed to list files'' (Some (error_to_string e))) 500, s2)
           | (Inr entries, s2) \<Rightarrow> (json (FilesReply entries) 200, s2)))"

text \<open>Lines 145 to 155.\<close>

definition files_read ::
  "'w runtime \<Rightarrow> jsval \<Rightarrow> string option \<Rightarrow> 'w state \<Rightarrow> response \<times> 'w state" where
  "files_read rt filename filePath s =
     (case filePath of
        None \<Rightarrow> (json (ErrorReply ''Filename is required for read action'' None) 400, s)
      | Some p \<Rightarrow>
          if \<not> truthy filename
          then (json (ErrorReply ''Filename is required for read action'' None) 400, s)
          else (case Deno_readTextFile rt p s of
                  (Inl e, s1) \<Rightarrow>
                    (json (ErrorReply ''Failed to read file'' (Some (error_to_string e))) 404, s1)
                | (Inr fileContent, s1) \<Rightarrow> (json (ContentReply fileContent) 200, s1)))"

text \<open>Lines 157 to 167.\<close>

definition files_create ::
  "'w runtime \<Rightarrow> jsval \<Rightarrow> string option \<Rightarrow> string option \<Rightarrow> 'w state \<Rightarrow> response \<times> 'w state" where
  "files_create rt filename filePath content s =
     (case (filePath, content) of
        (Some p, Some c) \<Rightarrow>
          if \<not> truthy filename
          then (json (ErrorReply ''Filename and content are required for create action'' None) 400, s)
          else (case Deno_writeTextFile rt p c s of
                  (Some e, s1) \<Rightarrow>
                    (json (ErrorReply ''Failed to create file'' (Some (error_to_string e))) 500, s1)
                | (None, s1) \<Rightarrow> (json (SuccessReply ''File created successfully'') 200, s1))
      | _ \<Rightarrow> (json (ErrorReply ''Filename and content are required for create action'' None) 400, s))"

text \<open>
  Lines 169 to 184: one \<^verbatim>\<open>catch\<close> serves \<^verbatim>\<open>Deno.stat\<close> and \<^verbatim>\<open>Deno.writeTextFile\<close>.
\<close>

definition update_failed :: "js_error \<Rightarrow> response" where
  "update_failed e =
     (if err_class e = NotFound then json (ErrorReply ''File does not exist'' None) 404
      else json (ErrorReply ''Failed to update file'' (Some (error_to_string e))) 500)"

definition files_update ::
  "'w runtime \<Rightarrow> jsval \<Rightarrow> string option \<Rightarrow> string option \<Rightarrow> 'w state \<Rightarrow> response \<times> 'w state" where
  "files_update rt filename filePath content s =
     (case (filePath, content) of
        (Some p, Some c) \<Rightarrow>
          if \<not> truthy filename
          then (json (ErrorReply ''Filename and content are required for update action'' None) 400, s)
          else (case Deno_stat rt p s of
                  (Inl e, s1) \<Rightarrow> (update_failed e, s1)
                | (Inr _, s1) \<Rightarrow>
                    (case Deno_writeTextFile rt p c s1 of
                       (Some e, s2) \<Rightarrow> (update_failed e, s2)
                     | (None, s2) \<Rightarrow> (json (SuccessReply ''File updated successfully'') 200, s2)))
      | _ \<Rightarrow> (json (ErrorReply ''Filename and content are required for update action'' None) 400, s))"

text \<open>Lines 186 to 199.\<close>

definition files_delete ::
  "'w runtime \<Rightarrow> jsval \<Rightarrow> string option \<Rightarrow> 'w state \<Rightarrow> response \<times> 'w state" where
  "files_delete rt filename filePath s =
     (case filePath of
        None \<Rightarrow> (json (ErrorReply ''Filename is required for delete action'' None) 400, s)
      | Some p \<Rightarrow>
          if \<not> truthy filename
          then (json (ErrorReply ''Filename is required for delete action'' None) 400, s)
          else (case Deno_remove rt p s of
                  (Some e, s1) \<Rightarrow>
                    (if err_class e = NotFound
                     then (json (ErrorReply ''File does not exist'' None) 404, s1)
                     else (json (ErrorReply ''Failed to delete file'' (Some (error_to_string e))) 500, s1))
                | (None, s1) \<Rightarrow> (json (SuccessReply ''File deleted successfully'') 200, s1)))"

text \<open>Lines 104 to 208: \<^verbatim>\<open>POST /:workspace/files\<close>.\<close>

definition files_handler ::
  "'w runtime \<Rightarrow> string \<Rightarrow> js_error + files_body \<Rightarrow> 'w state \<Rightarrow> response \<times> 'w state" where
  "files_handler rt workspacePath body s =
     (case body of
        Inl e \<Rightarrow> (internal_server_error e, s)
      | Inr b \<Rightarrow>
          if \<not> truthy (body_action b)
          then (json (ErrorReply ''Action is required'' None) 400, s)
          else (case Deno_stat rt workspacePath s of
                  (Inl _, s1) \<Rightarrow> (json (ErrorReply ''Workspace does not exist'' None) 404, s1)
                | (Inr _, s1) \<Rightarrow>
                    (case file_path workspacePath (body_filename b) of
                       Inl e \<Rightarrow> (internal_server_error e, s1)
                     | Inr filePath \<Rightarrow>
                         if body_action b = JStr ''list'' then files_list rt workspacePath s1
                         else if body_action b = JStr ''read''
                         then files_read rt (body_filename b) filePath s1
                         else if body_action b = JStr ''create''
                         then files_create rt (body_filename b) filePath (body_content b) s1
                         else if body_action b = JStr ''update''
                         then files_update rt (body_filename b) filePath (body_content b) s1
                         else if body_action b = JStr ''delete''
                         then files_delete rt (body_filename b) filePath s1
                         else (json (ErrorReply
                                 ''Invalid action. Supported actions: list, read, create, update, delete''
                                 None) 400, s1))))"

text \<open>
  Lines 211 to 273: \<^verbatim>\<open>GET /:workspace/files/download\<close>; the argument is the query
  parameter \<^verbatim>\<open>filename\<close>, \<open>None\<close> when the query has none.
\<close>

definition download_handler ::
  "'w runtime \<Rightarrow> string \<Rightarrow> string option \<Rightarrow> 'w state \<Rightarrow> response \<times> 'w state" where
  "download_handler rt workspacePath filename s =
     (case filename of
        None \<Rightarrow> (json (ErrorReply ''Filename is required'' None) 400, s)
      | Some f \<Rightarrow>
          if f = [] then (json (ErrorReply ''Filename is required'' None) 400, s)
          else if str_includes f ''..'' \<or> str_includes f ''/'' \<or> str_includes f [CHR 0x5C]
          then (json (ErrorReply ''Invalid filename'' None) 400, s)
          else (case Deno_stat rt (workspacePath @ ''/'' @ f) s of
                  (Inl _, s1) \<Rightarrow> (json (ErrorReply ''File not found'' None) 404, s1)
                | (Inr st, s1) \<Rightarrow>
                    if \<not> st_isFile st
                    then (json (ErrorReply ''Path is not a file'' None) 400, s1)
                    else (case Deno_open rt (workspacePath @ ''/'' @ f) s1 of
                            (Inl e, s2) \<Rightarrow> (internal_server_error e, s2)
                          | (Inr bytes, s2) \<Rightarrow> (json (StreamReply f bytes) 200, s2))))"

text \<open>Lines 276 to 296: \<^verbatim>\<open>POST /:workspace/create\<close>.\<close>

definition create_handler :: "'w runtime \<Rightarrow> string \<Rightarrow> 'w state \<Rightarrow> response \<times> 'w state" where
  "create_handler rt workspacePath s =
     (case Deno_stat rt workspacePath s of
        (Inr _, s1) \<Rightarrow> (json (ErrorReply ''Workspace already exists'' None) 409, s1)
      | (Inl _, s1) \<Rightarrow>
          (case Deno_mkdir rt workspacePath s1 of
             (Some e, s2) \<Rightarrow>
               (json (ErrorReply ''Failed to create workspace'' (Some (error_to_string e))) 500, s2)
           | (None, s2) \<Rightarrow> (json (SuccessReply ''Workspace created successfully'') 200, s2)))"

text \<open>
  Lines 54 to 65 and the four routes of the group \<^verbatim>\<open>api\<close>: the middleware checks the
  path parameter \<^verbatim>\<open>workspace\<close> and hands \<^verbatim>\<open>`./${workspace}`\<close> to the route's handler. (The
  bearer-key middleware of lines 21 to 44 runs before this group and is not part of it.)
\<close>

datatype request =
    Execute "js_error + execute_body"
  | Files "js_error + files_body"
  | Download "string option"
  | Create

definition invalid_workspace :: "string \<Rightarrow> bool" where
  "invalid_workspace w =
     (w = [] \<or> str_includes w ''..'' \<or> str_includes w ''/'' \<or> str_includes w [CHR 0x5C])"

definition api :: "'w runtime \<Rightarrow> string \<Rightarrow> request \<Rightarrow> 'w state \<Rightarrow> response \<times> 'w state" where
  "api rt w req s =
     (if invalid_workspace w
      then (json (ErrorReply ''Invalid workspace name'' None) 400, s)
      else (case req of
              Execute body \<Rightarrow> execute_handler rt (''./'' @ w) body s
            | Files body \<Rightarrow> files_handler rt (''./'' @ w) body s
            | Download filename \<Rightarrow> download_handler rt (''./'' @ w) filename s
            | Create \<Rightarrow> create_handler rt (''./'' @ w) s))"

section \<open>An in-memory runtime\<close>

text \<open>
  One instance of the runtime, on which the handlers can be run on concrete requests:
  files are an association list from paths to contents, directories a list of paths.
  A path listed in \<open>mem_readonly\<close> can be neither written nor removed. The next
  subprocess ends as \<open>mem_outcome\<close> says, and while it runs it makes the paths of
  \<open>mem_locks\<close> read-only (a script may change the permissions of the workspace it is
  allowed to write).
\<close>

record mem =
  mem_files :: "(string \<times> string) list"
  mem_dirs :: "string list"
  mem_readonly :: "string list"
  mem_random :: nat
  mem_outcome :: spawn_outcome
  mem_locks :: "string list"

definition not_found :: js_error where
  "not_found = JsError NotFound ''NotFound'' ''No such file or directory''"

definition permission_denied :: js_error where
  "permission_denied = JsError PermissionDenied ''PermissionDenied'' ''Permission denied''"

definition is_a_directory :: js_error where
  "is_a_directory = JsError OtherError ''Error'' ''Is a directory''"

definition mem_stat :: "string \<Rightarrow> mem \<Rightarrow> js_error + file_info" where
  "mem_stat p w =
     (if p \<in> set (mem_dirs w)
      then Inr \<lparr>st_isFile = False, st_isDirectory = True, st_size = 0, st_mtime = None\<rparr>
      else (case map_of (mem_files w) p of
              Some c \<Rightarrow> Inr \<lparr>st_isFile = True, st_isDirectory = False, st_size = length c,
                            st_mtime = None\<rparr>
            | None \<Rightarrow> Inl not_found))"

definition mem_mkdir :: "string \<Rightarrow> mem \<Rightarrow> js_error option \<times> mem" where
  "mem_mkdir p w =
     (if map_of (mem_files w) p \<noteq> None
      then (Some (JsError AlreadyExists ''AlreadyExists'' ''File exists''), w)
      else (None, w\<lparr>mem_dirs := p # mem_dirs w\<rparr>))"

definition mem_readTextFile :: "string \<Rightarrow> mem \<Rightarrow> js_error + string" where
  "mem_readTextFile p w =
     (case map_of (mem_files w) p of
        Some c \<Rightarrow> Inr c
      | None \<Rightarrow> Inl (if p \<in> set (mem_dirs w) then is_a_directory else not_found))"

definition mem_writeTextFile :: "string \<Rightarrow> string \<Rightarrow> mem \<Rightarrow> js_error option \<times> mem" where
  "mem_writeTextFile p c w =
     (if p \<in> set (mem_dirs w) then (Some is_a_directory, w)
      else if p \<in> set (mem_readonly w) then (Some permission_denied, w)
      else (None, w\<lparr>mem_files := (p, c) # filter (\<lambda>e. fst e \<noteq> p) (mem_files w)\<rparr>))"

definition mem_remove :: "string \<Rightarrow> mem \<Rightarrow> js_error option \<times> mem" where
  "mem_remove p w =
     (if p \<in> set (mem_readonly w) then (Some permission_denied, w)
      else if p \<in> set (mem_dirs w) then (None, w\<lparr>mem_dirs := removeAll p (mem_dirs w)\<rparr>)
      else if map_of (mem_files w) p = None then (Some not_found, w)
      else (None, w\<lparr>mem_files := filter (\<lambda>e. fst e \<noteq> p) (mem_files w)\<rparr>))"

definition child_name :: "string \<Rightarrow> string \<Rightarrow> string option" where
  "child_name dir p =
     (if prefix (dir @ ''/'') p \<and> drop (Suc (length dir)) p \<noteq> [] \<and>
         CHR ''/'' \<notin> set (drop (Suc (length dir)) p)
      then Some (drop (Suc (length dir)) p) else None)"

definition mem_readDir :: "string \<Rightarrow> mem \<Rightarrow> js_error + dir_entry list" where
  "mem_readDir p w =
     (if p \<in> set (mem_dirs w)
      then Inr (List.map_filter
                  (\<lambda>e. map_option (\<lambda>n. \<lparr>de_name = n, de_isFile = True, de_isDirectory = False\<rparr>)
                         (child_name p (fst e))) (mem_files w) @
                List.map_filter
                  (\<lambda>d. map_option (\<lambda>n. \<lparr>de_name = n, de_isFile = False, de_isDirectory = True\<rparr>)
                         (child_name p d)) (mem_dirs w))
      else Inl not_found)"

definition mem_command_output ::
  "string \<Rightarrow> string list \<Rightarrow> jsval \<Rightarrow> mem \<Rightarrow> spawn_outcome \<times> mem" where
  "mem_command_output prog args t w =
     (mem_outcome w, w\<lparr>mem_readonly := mem_locks w @ mem_readonly w\<rparr>)"

text \<open>
  Its conversions: a string of decimal digits converts to their number and any other
  string to NaN; a number that is not an integer is written with its decimal
  expansion, cut after 17 digits.
\<close>

definition digit_value :: "char \<Rightarrow> nat option" where
  "digit_value =
     map_of [(CHR ''0'', 0), (CHR ''1'', 1), (CHR ''2'', 2), (CHR ''3'', 3), (CHR ''4'', 4),
             (CHR ''5'', 5), (CHR ''6'', 6), (CHR ''7'', 7), (CHR ''8'', 8), (CHR ''9'', 9)]"

fun decimal_value :: "string \<Rightarrow> nat \<Rightarrow> nat option" where
  "decimal_value [] acc = Some acc"
| "decimal_value (c # cs) acc =
     (case digit_value c of None \<Rightarrow> None | Some d \<Rightarrow> decimal_value cs (10 * acc + d))"

definition mem_StringToNumber :: "string \<Rightarrow> number" where
  "mem_StringToNumber s =
     (case decimal_value s 0 of Some n \<Rightarrow> Finite (of_nat n) | None \<Rightarrow> NaN)"

fun fraction_digits :: "nat \<Rightarrow> rat \<Rightarrow> string" where
  "fraction_digits 0 f = []"
| "fraction_digits (Suc k) f =
     (if f = 0 then []
      else digit_char (nat \<lfloor>f * 10\<rfloor>) # fraction_digits k (f * 10 - of_int \<lfloor>f * 10\<rfloor>))"

definition mem_NumberToString :: "rat \<Rightarrow> string" where
  "mem_NumberToString r =
     (if r < 0 then ''-'' else []) @ show_nat (nat \<lfloor>\<bar>r\<bar>\<rfloor>) @ ''.'' @
     fraction_digits 17 (\<bar>r\<bar> - of_int \<lfloor>\<bar>r\<bar>\<rfloor>)"

definition mem_runtime :: "mem runtime" where
  "mem_runtime =
     \<lparr>rt_stat = mem_stat,
      rt_mkdir = mem_mkdir,
      rt_readTextFile = mem_readTextFile,
      rt_writeTextFile = mem_writeTextFile,
      rt_remove = mem_remove,
      rt_readDir = mem_readDir,
      rt_open = mem_readTextFile,
      rt_randomUUID = (\<lambda>w. (mem_random w, w\<lparr>mem_random := Suc (mem_random w)\<rparr>)),
      rt_command_output = mem_command_output,
      rt_StringToNumber = mem_StringToNumber,
      rt_NumberToString = mem_NumberToString\<rparr>"

text \<open>
  A world with the workspace directory \<^verbatim>\<open>./ws\<close> holding a file and a directory with
  a file, and the empty world.
  In both the next subprocess prints \<^verbatim>\<open>hi\<close> and ends well.
\<close>

definition ran_well :: spawn_outcome where
  "ran_well = Resolved \<lparr>out_success = True, out_stdout = ''hi'', out_stderr = []\<rparr> False"

definition ws_world :: mem where
  "ws_world =
     \<lparr>mem_files = [(''./ws/a.txt'', ''old''), (''./ws/sub/a.txt'', ''inner'')],
      mem_dirs = [''./ws'', ''./ws/sub''], mem_readonly = [],
      mem_random = 0, mem_outcome = ran_well, mem_locks = []\<rparr>"

definition empty_world :: mem where
  "empty_world =
     \<lparr>mem_files = [], mem_dirs = [], mem_readonly = [],
      mem_random = 0, mem_outcome = ran_well, mem_locks = []\<rparr>"

text \<open>
  Worlds in which the subprocess is cut off by the abort timer, cannot be started, or
  makes its own script file read-only before it ends.
\<close>

definition timed_out_world :: mem where
  "timed_out_world =
     ws_world\<lparr>mem_outcome :=
       Resolved \<lparr>out_success = False, out_stdout = ''partial'', out_stderr = ''native''\<rparr> True\<rparr>"

definition spawn_failure_world :: mem where
  "spawn_failure_world =
     ws_world\<lparr>mem_outcome := Rejected (JsError NotFound ''NotFound'' ''Failed to spawn deno'')\<rparr>"

definition first_script :: string where
  "first_script = ''./ws/sandbox_00000000-0000-0000-0000-000000000000.ts''"

definition locking_world :: mem where
  "locking_world = ws_world\<lparr>mem_locks := [first_script]\<rparr>"

definition hello_options :: RunSandboxOptions where
  "hello_options =
     \<lparr>code = ''console.log(1)'', workspace = ''./ws'', timeout = JNum (Finite 5000),
      memoryLimit = JNum (Finite 50)\<rparr>"

definition hello_body :: execute_body where
  "hello_body =
     \<lparr>body_code = JStr ''console.log(1)'', body_timeout = JUndefined,
      body_memoryLimit = JUndefined\<rparr>"

definition hello_args :: "string list" where
  "hello_args =
     [''run'', ''--no-remote'', ''--no-npm'', ''--allow-read=./ws'', ''--allow-write=./ws'',
      ''--v8-flags=--max-old-space-size=50'', first_script]"

text \<open>A world in which the first script file cannot be written.\<close>

definition readonly_world :: mem where
  "readonly_world = ws_world\<lparr>mem_readonly := [first_script]\<rparr>"

section \<open>Notions the properties are stated with\<close>

text \<open>
  The abort timer fired before the subprocess was done: \<^verbatim>\<open>controller.abort()\<close> has set
  \<^verbatim>\<open>signal.aborted\<close> when \<^verbatim>\<open>command.output()\<close> resolves, or it rejects with the
  AbortError of the signal.
\<close>

fun timer_fired :: "spawn_outcome \<Rightarrow> bool" where
  "timer_fired (Resolved out aborted) = aborted"
| "timer_fired (Rejected e) = is_abort_error e"

text \<open>The characters of a hexadecimal digit string.\<close>

definition hex_chars :: "char set" where
  "hex_chars = set ''0123456789abcdef''"

text \<open>
  The paths a logged call hands to the file system; for a subprocess, the script it is
  told to run (its last argument).
\<close>

fun call_paths :: "call \<Rightarrow> string list" where
  "call_paths (Stat p) = [p]"
| "call_paths (Mkdir p) = [p]"
| "call_paths (ReadTextFile p) = [p]"
| "call_paths (WriteTextFile p c) = [p]"
| "call_paths (Remove p) = [p]"
| "call_paths (ReadDir p) = [p]"
| "call_paths (Open p) = [p]"
| "call_paths (Command prog args) = (if args = [] then [] else [last args])"

text \<open>The segments of a path: the pieces between its forward slashes.\<close>

fun segments :: "string \<Rightarrow> string list" where
  "segments [] = [[]]"
| "segments (c # cs) =
     (if c = CHR ''/'' then [] # segments cs
      else (case segments cs of [] \<Rightarrow> [[c]] | g # gs \<Rightarrow> (c # g) # gs))"

text \<open>
  The world after lines 19 to 24 of src/sandbox.ts (the workspace directory is made when
  its stat throws), and the path of the script that lines 27 to 29 then choose.
\<close>

definition world_with_workspace :: "'w runtime \<Rightarrow> string \<Rightarrow> 'w \<Rightarrow> 'w" where
  "world_with_workspace rt ws w =
     (case rt_stat rt ws w of Inl _ \<Rightarrow> snd (rt_mkdir rt ws w) | Inr _ \<Rightarrow> w)"

definition next_script_path :: "'w runtime \<Rightarrow> string \<Rightarrow> 'w \<Rightarrow> string" where
  "next_script_path rt ws w =
     script_path ws (uuid_string (fst (rt_randomUUID rt (world_with_workspace rt ws w))))"

text \<open>
  The one request whose paths come from the runtime: the list action stats each name
  that the reading of the workspace directory returns.
\<close>

fun lists_directory :: "request \<Rightarrow> bool" where
  "lists_directory (Files (Inr b)) = (body_action b = JStr ''list'')"
| "lists_directory _ = False"

section \<open>Strings\<close>

lemma str_includes_single: "str_includes s [c] = (c \<in> set s)"
  by (induction s) auto

lemma prefix_dotdot_Cons:
  "prefix ''..'' (c # cs) = (c = CHR ''.'' \<and> cs \<noteq> [] \<and> hd cs = CHR ''.'')"
  by (cases cs) auto

lemma str_includes_dotdot_Cons:
  "str_includes (c # cs) ''..'' =
     ((c = CHR ''.'' \<and> cs \<noteq> [] \<and> hd cs = CHR ''.'') \<or> str_includes cs ''..'')"
  by (simp add: prefix_dotdot_Cons del: prefix_code)

lemma str_includes_dotdot_append:
  "str_includes (a @ b) ''..'' =
     (str_includes a ''..'' \<or> str_includes b ''..'' \<or>
      (a \<noteq> [] \<and> last a = CHR ''.'' \<and> b \<noteq> [] \<and> hd b = CHR ''.''))"
proof (induction a)
  case Nil
  show ?case by simp
next
  case (Cons c a)
  show ?case
  proof (cases a)
    case Nil
    then show ?thesis using Cons by (cases b) (auto simp: str_includes_dotdot_Cons)
  next
    case (Cons d a')
    then show ?thesis using Cons.IH
      by (simp only: append_Cons str_includes_dotdot_Cons) auto
  qed
qed

lemma str_includes_dotdot_slash:
  "str_includes (a @ CHR ''/'' # b) ''..'' = (str_includes a ''..'' \<or> str_includes b ''..'')"
  by (simp add: str_includes_dotdot_append str_includes_dotdot_Cons del: str_includes.simps(2))

lemma no_dot_no_dotdot: "CHR ''.'' \<notin> set s \<Longrightarrow> \<not> str_includes s ''..''"
  by (induction s) (auto simp: str_includes_dotdot_Cons simp del: str_includes.simps(2))

lemma replace_dotdot_hd:
  "s = [] \<or> hd s \<noteq> CHR ''.'' \<Longrightarrow> replace_dotdot s = [] \<or> hd (replace_dotdot s) \<noteq> CHR ''.''"
  by (induction s rule: replace_dotdot.induct) auto

lemma replace_dotdot_clean: "\<not> str_includes (replace_dotdot s) ''..''"
proof (induction s rule: replace_dotdot.induct)
  case (1 c d cs)
  show ?case
  proof (cases "c = CHR ''.'' \<and> d = CHR ''.''")
    case True
    then show ?thesis using 1 by simp
  next
    case False
    have hd: "replace_dotdot (d # cs) = [] \<or> hd (replace_dotdot (d # cs)) \<noteq> CHR ''.''"
      if "c = CHR ''.''"
      using that False by (intro replace_dotdot_hd) simp
    have eq: "replace_dotdot (c # d # cs) = c # replace_dotdot (d # cs)"
      using False by auto
    have ih: "\<not> str_includes (replace_dotdot (d # cs)) ''..''"
      using 1 False by blast
    show ?thesis
      unfolding eq str_includes_dotdot_Cons using hd ih by blast
  qed
next
  case (2 c)
  show ?case by (simp add: str_includes_dotdot_Cons)
next
  case 3
  show ?case by simp
qed

lemma strip_trailing_slashes_id:
  "s \<noteq> [] \<Longrightarrow> last s \<noteq> CHR ''/'' \<Longrightarrow> strip_trailing_slashes s = s"
  by (cases s rule: rev_cases) (auto simp: strip_trailing_slashes_def)

lemma hex_char_in: "hex_char n \<in> hex_chars"
  unfolding hex_char_def hex_chars_def by (rule nth_mem) simp

lemma hex_digits_set: "set (hex_digits k n) \<subseteq> hex_chars"
  by (induction k arbitrary: n) (use hex_char_in in auto)

lemma uuid_string_set: "set (uuid_string u) \<subseteq> insert CHR ''-'' hex_chars"
proof -
  define h where "h = hex_digits 32 u"
  have h: "set h \<subseteq> hex_chars"
    unfolding h_def by (rule hex_digits_set)
  have "set (take k h) \<subseteq> hex_chars" and "set (drop k h) \<subseteq> hex_chars"
    and "set (take k (drop j h)) \<subseteq> hex_chars" for k j
    using h set_take_subset [of k h] set_drop_subset [of k h]
      set_take_subset [of k "drop j h"] set_drop_subset [of j h] by (blast, blast, blast)
  then have "set (take 8 h @ ''-'' @ take 4 (drop 8 h) @ ''-'' @ take 4 (drop 12 h) @ ''-'' @
         take 4 (drop 16 h) @ ''-'' @ drop 20 h) \<subseteq> insert CHR ''-'' hex_chars"
    by (simp add: subset_insertI2)
  then show ?thesis
    unfolding uuid_string_def Let_def h_def .
qed

lemma hex_chars_plain: "CHR ''.'' \<notin> hex_chars" "CHR ''/'' \<notin> hex_chars"
  by (simp_all add: hex_chars_def)

lemma uuid_string_plain:
  "CHR ''.'' \<notin> set (uuid_string u)" "CHR ''/'' \<notin> set (uuid_string u)"
  using uuid_string_set [of u] hex_chars_plain by auto

lemma segments_nonempty: "segments p \<noteq> []"
  by (induction p) (auto split: list.splits)

lemma segments_hd:
  "segments p = g # gs \<Longrightarrow> g \<noteq> [] \<Longrightarrow> p \<noteq> [] \<and> hd p = hd g"
  by (cases p) (auto split: if_splits list.splits)

lemma segment_includes:
  "g \<in> set (segments p) \<Longrightarrow> str_includes g ''..'' \<Longrightarrow> str_includes p ''..''"
proof (induction p arbitrary: g)
  case Nil
  then show ?case by simp
next
  case (Cons c cs)
  show ?case
  proof (cases "c = CHR ''/''")
    case True
    then have "g = [] \<or> g \<in> set (segments cs)"
      using Cons.prems(1) by auto
    then have "str_includes cs ''..''"
      using Cons.IH Cons.prems(2) by auto
    then show ?thesis
      by (simp add: str_includes_dotdot_Cons del: str_includes.simps(2))
  next
    case False
    obtain g0 gs where seg: "segments cs = g0 # gs"
      using segments_nonempty [of cs] by (cases "segments cs") auto
    then have "g = c # g0 \<or> g \<in> set gs"
      using Cons.prems(1) False by auto
    then show ?thesis
    proof
      assume g: "g = c # g0"
      then have "(c = CHR ''.'' \<and> g0 \<noteq> [] \<and> hd g0 = CHR ''.'') \<or> str_includes g0 ''..''"
        using Cons.prems(2) by (simp add: str_includes_dotdot_Cons del: str_includes.simps(2))
      then show ?thesis
      proof
        assume "c = CHR ''.'' \<and> g0 \<noteq> [] \<and> hd g0 = CHR ''.''"
        then show ?thesis
          using segments_hd [OF seg]
          by (simp add: str_includes_dotdot_Cons del: str_includes.simps(2))
      next
        assume "str_includes g0 ''..''"
        then have "str_includes cs ''..''"
          using Cons.IH [of g0] seg by simp
        then show ?thesis
          by (simp add: str_includes_dotdot_Cons del: str_includes.simps(2))
      qed
    next
      assume "g \<in> set gs"
      then have "str_includes cs ''..''"
        using Cons.IH [of g] seg Cons.prems(2) by simp
      then show ?thesis
        by (simp add: str_includes_dotdot_Cons del: str_includes.simps(2))
    qed
  qed
qed

lemma no_dotdot_segment: "\<not> str_includes p ''..'' \<Longrightarrow> ''..'' \<notin> set (segments p)"
  using segment_includes [of "''..''" p] by auto

section \<open>The calls of \<open>run_sandbox\<close> and of the execute endpoint\<close>

lemmas deno_defs = Deno_stat_def Deno_mkdir_def Deno_readTextFile_def Deno_writeTextFile_def
  Deno_remove_def Deno_readDir_def Deno_open_def Deno_Command_output_def randomUUID_def

lemma run_script_eq:
  "run_script rt options p s =
     (sandbox_result (fst (rt_command_output rt ''deno''
         (sandbox_args rt (workspace options) (memoryLimit options) p) (timeout options) (fst s))),
      (snd (rt_remove rt p (snd (rt_command_output rt ''deno''
         (sandbox_args rt (workspace options) (memoryLimit options) p) (timeout options) (fst s)))),
       snd s @ [Command ''deno'' (sandbox_args rt (workspace options) (memoryLimit options) p),
                Remove p]))"
  by (simp add: run_script_def deno_defs)

lemma prepare_script_path:
  "fst (prepare_script rt options s) = Inr p \<Longrightarrow>
   p = next_script_path rt (workspace options) (fst s)"
  by (auto simp: prepare_script_def deno_defs next_script_path_def world_with_workspace_def
      split: sum.splits option.splits prod.splits)

lemma prepare_script_log:
  "set (snd (snd (prepare_script rt options s))) \<subseteq>
     set (snd s) \<union> {Stat (workspace options), Mkdir (workspace options),
       WriteTextFile (next_script_path rt (workspace options) (fst s)) (code options)}"
  by (auto simp: prepare_script_def deno_defs next_script_path_def world_with_workspace_def
      split: sum.splits option.splits prod.splits)

lemma run_sandbox_log:
  "set (snd (snd (run_sandbox rt options s))) \<subseteq>
     set (snd s) \<union> {Stat (workspace options), Mkdir (workspace options),
       WriteTextFile (next_script_path rt (workspace options) (fst s)) (code options),
       Command ''deno'' (sandbox_args rt (workspace options) (memoryLimit options)
         (next_script_path rt (workspace options) (fst s))),
       Remove (next_script_path rt (workspace options) (fst s))}"
proof -
  obtain r s1 where Pair: "prepare_script rt options s = (r, s1)"
    by (cases "prepare_script rt options s") auto
  show ?thesis
  proof (cases r)
    case (Inl e)
    then show ?thesis using prepare_script_log [of rt options s] Pair
      by (auto simp: run_sandbox_def)
  next
    case (Inr p)
    then have "p = next_script_path rt (workspace options) (fst s)"
      using prepare_script_path [of rt options s p] Pair by simp
    then show ?thesis using prepare_script_log [of rt options s] Pair Inr
      by (auto simp: run_sandbox_def run_script_eq)
  qed
qed

lemma run_sandbox_result:
  assumes "fst (prepare_script rt options s) = Inr scriptPath"
    and "fst (rt_command_output rt ''deno''
           (sandbox_args rt (workspace options) (memoryLimit options) scriptPath)
           (timeout options) (fst (snd (prepare_script rt options s)))) = oc"
  shows "fst (run_sandbox rt options s) = Inr (sandbox_result oc)"
proof -
  obtain s1 where p: "prepare_script rt options s = (Inr scriptPath, s1)"
    using assms(1) by (cases "prepare_script rt options s") auto
  show ?thesis using assms(2)
    by (simp add: run_sandbox_def p run_script_def deno_defs split: prod.splits)
qed

lemma sandbox_args_eq:
  "truthy m \<Longrightarrow> p \<noteq> [] \<Longrightarrow>
   sandbox_args rt ws m p =
     [''run'', ''--no-remote'', ''--no-npm'', ''--allow-read='' @ ws, ''--allow-write='' @ ws,
      ''--v8-flags=--max-old-space-size='' @ ToString rt m, p]"
  by (simp add: sandbox_args_def)

lemma sandbox_args_last:
  "p \<noteq> [] \<Longrightarrow> sandbox_args rt ws m p \<noteq> [] \<and> last (sandbox_args rt ws m p) = p"
  by (simp add: sandbox_args_def)

lemma execute_handler_log:
  assumes "c \<in> set (snd (snd (execute_handler rt ws body s)))" and "c \<notin> set (snd s)"
  shows "\<exists>b. body = Inr b \<and> c \<in> set (snd (snd (run_sandbox rt (sandbox_options ws b) s)))"
  using assms
  by (auto simp: execute_handler_def split: sum.splits if_splits prod.splits)

section \<open>The paths of the calls\<close>

lemma valid_workspace_plain:
  "\<not> invalid_workspace w \<Longrightarrow>
   w \<noteq> [] \<and> \<not> str_includes w ''..'' \<and> CHR ''/'' \<notin> set w \<and> CHR 0x5C \<notin> set w"
  by (simp add: invalid_workspace_def str_includes_single)

lemma script_path_valid:
  assumes "\<not> invalid_workspace w"
  shows "script_path (''./'' @ w) sid = ''./'' @ w @ ''/sandbox_'' @ sid @ ''.ts''"
proof -
  have w: "w \<noteq> []" "CHR ''/'' \<notin> set w"
    using valid_workspace_plain [OF assms] by simp_all
  have "last w \<in> set w"
    using w(1) by simp
  then have "last w \<noteq> CHR ''/''"
    using w(2) by metis
  then have "last (''./'' @ w) \<noteq> CHR ''/''"
    using w(1) by simp
  then have "strip_trailing_slashes (''./'' @ w) = ''./'' @ w"
    by (intro strip_trailing_slashes_id) simp_all
  then show ?thesis
    by (simp add: script_path_def script_name_def)
qed

lemma workspace_path_clean:
  assumes "\<not> invalid_workspace w"
  shows "\<not> str_includes (''./'' @ w) ''..''"
  using valid_workspace_plain [OF assms]
  by (simp add: str_includes_dotdot_Cons del: str_includes.simps(2))

lemma inside_workspace_clean:
  assumes "\<not> invalid_workspace w" and "\<not> str_includes x ''..''"
  shows "\<not> str_includes (''./'' @ w @ ''/'' @ x) ''..''"
proof -
  have "''./'' @ w @ ''/'' @ x = (''./'' @ w) @ CHR ''/'' # x"
    by simp
  then show ?thesis
    using workspace_path_clean [OF assms(1)] assms(2)
    by (simp only: str_includes_dotdot_slash) simp
qed

lemma script_name_clean: "\<not> str_includes (''sandbox_'' @ uuid_string u @ ''.ts'') ''..''"
proof -
  have u: "CHR ''.'' \<notin> set (uuid_string u)"
    by (rule uuid_string_plain)
  then have "uuid_string u = [] \<or> last (uuid_string u) \<noteq> CHR ''.''"
    using last_in_set [of "uuid_string u"] by metis
  moreover have "\<not> str_includes (uuid_string u) ''..''"
    using u by (rule no_dot_no_dotdot)
  ultimately have "\<not> str_includes (uuid_string u @ ''.ts'') ''..''"
    by (auto simp: str_includes_dotdot_append [of "uuid_string u"] str_includes_dotdot_Cons
        simp del: str_includes.simps(2))
  then show ?thesis
    by (simp add: str_includes_dotdot_Cons del: str_includes.simps(2))
qed

lemma confined_workspace:
  assumes "\<not> invalid_workspace w"
  shows "prefix (''./'' @ w) (''./'' @ w) \<and> \<not> str_includes (''./'' @ w) ''..'' \<and>
    ''..'' \<notin> set (segments (''./'' @ w))"
  using workspace_path_clean [OF assms] no_dotdot_segment [of "''./'' @ w"] by simp

lemma confined_inside:
  assumes "\<not> invalid_workspace w" and "\<not> str_includes x ''..''"
  shows "prefix (''./'' @ w) (''./'' @ w @ ''/'' @ x) \<and>
    \<not> str_includes (''./'' @ w @ ''/'' @ x) ''..'' \<and>
    ''..'' \<notin> set (segments (''./'' @ w @ ''/'' @ x))"
proof -
  have "prefix (''./'' @ w) ((''./'' @ w) @ ''/'' @ x)"
    by (rule prefixI) simp
  then show ?thesis
    using inside_workspace_clean [OF assms] no_dotdot_segment [of "''./'' @ w @ ''/'' @ x"]
    by simp
qed

lemma files_handler_paths:
  assumes "c \<in> set (snd (snd (files_handler rt ws body s)))" and "c \<notin> set (snd s)"
    and "p \<in> set (call_paths c)"
    and "\<forall>b. body = Inr b \<longrightarrow> body_action b \<noteq> JStr ''list''"
  shows "p = ws \<or> (\<exists>b f. body = Inr b \<and> body_filename b = JStr f \<and> f \<noteq> [] \<and>
           p = ws @ ''/'' @ replace_dotdot f)"
  using assms
  by (auto simp: files_handler_def file_path_def files_read_def files_create_def
      files_update_def files_delete_def deno_defs
      split: sum.splits if_splits prod.splits option.splits jsval.splits)

lemma download_handler_paths:
  assumes "c \<in> set (snd (snd (download_handler rt ws filename s)))" and "c \<notin> set (snd s)"
    and "p \<in> set (call_paths c)"
  shows "\<exists>f. filename = Some f \<and> f \<noteq> [] \<and> \<not> str_includes f ''..'' \<and> p = ws @ ''/'' @ f"
  using assms
  by (auto simp: download_handler_def deno_defs
      split: sum.splits if_splits prod.splits option.splits)

lemma create_handler_paths:
  assumes "c \<in> set (snd (snd (create_handler rt ws s)))" and "c \<notin> set (snd s)"
    and "p \<in> set (call_paths c)"
  shows "p = ws"
  using assms
  by (auto simp: create_handler_def deno_defs
      split: sum.splits if_splits prod.splits option.splits)

lemma execute_handler_paths:
  assumes valid: "\<not> invalid_workspace w"
    and c: "c \<in> set (snd (snd (execute_handler rt (''./'' @ w) body s)))" "c \<notin> set (snd s)"
    and p: "p \<in> set (call_paths c)"
  shows "p = ''./'' @ w \<or> (\<exists>u. p = ''./'' @ w @ ''/'' @ (''sandbox_'' @ uuid_string u @ ''.ts''))"
proof -
  define ws where "ws = ''./'' @ w"
  obtain b where run: "c \<in> set (snd (snd (run_sandbox rt (sandbox_options ws b) s)))"
    using execute_handler_log [of c rt ws body s] c unfolding ws_def by auto
  define u where "u = fst (rt_randomUUID rt (world_with_workspace rt ws (fst s)))"
  define P where "P = next_script_path rt ws (fst s)"
  have P: "P = ''./'' @ w @ ''/sandbox_'' @ uuid_string u @ ''.ts''"
    unfolding P_def next_script_path_def u_def ws_def by (rule script_path_valid [OF valid])
  have args: "sandbox_args rt ws (destructured_memoryLimit b) P \<noteq> []"
    "last (sandbox_args rt ws (destructured_memoryLimit b) P) = P"
    using sandbox_args_last [of P rt ws "destructured_memoryLimit b"] by (simp_all add: P)
  have "c \<in> {Stat ws, Mkdir ws, WriteTextFile P (code (sandbox_options ws b)),
      Command ''deno'' (sandbox_args rt ws (destructured_memoryLimit b) P), Remove P}"
    using run c(2) run_sandbox_log [of rt "sandbox_options ws b" s]
    by (auto simp: sandbox_options_def P_def)
  then have "p = ws \<or> p = P"
    using p args by auto
  then show ?thesis
    unfolding P ws_def by auto
qed

section \<open>Running the handlers on the in-memory runtime\<close>

lemmas mem_defs = mem_runtime_def mem_stat_def mem_mkdir_def mem_readTextFile_def
  mem_writeTextFile_def mem_remove_def mem_readDir_def mem_command_output_def
  not_found_def permission_denied_def is_a_directory_def

lemma hex_digits_zero: "hex_digits k 0 = replicate k CHR ''0''"
  by (induction k) (simp_all add: hex_char_def replicate_append_same)

lemma uuid_string_zero: "uuid_string 0 = ''00000000-0000-0000-0000-000000000000''"
  by (simp add: uuid_string_def hex_digits_zero eval_nat_numeral)

lemma strip_ws: "strip_trailing_slashes ''./ws'' = ''./ws''"
  by (simp add: strip_trailing_slashes_def)

lemma script_path_first: "script_path ''./ws'' (uuid_string 0) = first_script"
  by (simp add: script_path_def script_name_def uuid_string_zero first_script_def strip_ws)

lemma prepare_first:
  assumes "mem_files w = mem_files ws_world" and "mem_dirs w = mem_dirs ws_world"
    and "mem_readonly w = []" and "mem_random w = 0"
  shows "prepare_script mem_runtime hello_options (w, tr) =
     (Inr first_script,
      (w\<lparr>mem_random := Suc 0,
         mem_files := (first_script, ''console.log(1)'') # mem_files ws_world\<rparr>,
       tr @ [Stat ''./ws'', WriteTextFile first_script ''console.log(1)'']))"
  using assms
  by (simp add: prepare_script_def deno_defs mem_defs hello_options_def script_path_first
        ws_world_def first_script_def)

lemma spawn_failure_run:
  "fst (prepare_script mem_runtime hello_options (spawn_failure_world, [])) = Inr first_script"
  "fst (rt_command_output mem_runtime ''deno''
           (sandbox_args mem_runtime (workspace hello_options) (memoryLimit hello_options) first_script)
           (timeout hello_options)
           (fst (snd (prepare_script mem_runtime hello_options (spawn_failure_world, []))))) =
           Rejected (JsError NotFound ''NotFound'' ''Failed to spawn deno'')"
proof -
  have p: "prepare_script mem_runtime hello_options (spawn_failure_world, []) =
     (Inr first_script,
      (spawn_failure_world\<lparr>mem_random := Suc 0,
         mem_files := (first_script, ''console.log(1)'') # mem_files ws_world\<rparr>, 
       [] @ [Stat ''./ws'', WriteTextFile first_script ''console.log(1)'']))"
    by (rule prepare_first) (simp_all add: spawn_failure_world_def ws_world_def)
  show "fst (prepare_script mem_runtime hello_options (spawn_failure_world, [])) = Inr first_script"
    by (simp add: p)
  show "fst (rt_command_output mem_runtime ''deno''
           (sandbox_args mem_runtime (workspace hello_options) (memoryLimit hello_options) first_script)
           (timeout hello_options)
           (fst (snd (prepare_script mem_runtime hello_options (spawn_failure_world, []))))) =
           Rejected (JsError NotFound ''NotFound'' ''Failed to spawn deno'')"
    unfolding p by (simp add: mem_runtime_def mem_command_output_def spawn_failure_world_def)
qed

lemma show_int_50: "show_int 50 = ''50''"
  by (simp add: show_int_def show_nat.simps digit_char_def)

lemma hello_sandbox_args:
  "sandbox_args rt ''./ws'' (JNum (Finite 50)) first_script = hello_args"
  by (simp add: sandbox_args_def show_int_50 hello_args_def first_script_def)

lemma run_hello:
  assumes "mem_files w = mem_files ws_world" and "mem_dirs w = mem_dirs ws_world"
    and "mem_readonly w = []" and "mem_random w = 0"
  shows "run_sandbox mem_runtime hello_options (w, tr) =
     (Inr (sandbox_result (mem_outcome w)),
      (snd (mem_remove first_script
         (w\<lparr>mem_random := Suc 0,
            mem_files := (first_script, ''console.log(1)'') # mem_files ws_world,
            mem_readonly := mem_locks w\<rparr>)),
       tr @ [Stat ''./ws'', WriteTextFile first_script ''console.log(1)'',
             Command ''deno'' hello_args, Remove first_script]))"
  unfolding run_sandbox_def prepare_first [OF assms] run_script_eq
  by (simp add: hello_options_def hello_sandbox_args mem_runtime_def mem_command_output_def assms)

lemma hello_sandbox_options: "sandbox_options ''./ws'' hello_body = hello_options"
  by (simp add: sandbox_options_def hello_body_def hello_options_def
      destructured_timeout_def destructured_memoryLimit_def)

lemma execute_hello:
  "api mem_runtime ''ws'' (Execute (Inr hello_body)) (ws_world, []) =
     (json (ResultReply \<lparr>success = True, stdout = ''hi'', stderr = [], timedOut = False,
                          error = None\<rparr>) 200,
      (ws_world\<lparr>mem_random := Suc 0\<rparr>,
       [Stat ''./ws'', WriteTextFile first_script ''console.log(1)'',
        Command ''deno'' hello_args, Remove first_script]))"
proof -
  have valid: "\<not> invalid_workspace ''ws''"
    by (simp add: invalid_workspace_def)
  have run: "run_sandbox mem_runtime hello_options (ws_world, []) =
     (Inr (sandbox_result (mem_outcome ws_world)),
      (snd (mem_remove first_script
         (ws_world\<lparr>mem_random := Suc 0,
            mem_files := (first_script, ''console.log(1)'') # mem_files ws_world,
            mem_readonly := mem_locks ws_world\<rparr>)),
       [] @ [Stat ''./ws'', WriteTextFile first_script ''console.log(1)'',
             Command ''deno'' hello_args, Remove first_script]))"
    by (rule run_hello) (simp_all add: ws_world_def)
  have ex: "api mem_runtime ''ws'' (Execute (Inr hello_body)) (ws_world, []) =
      (case run_sandbox mem_runtime (sandbox_options ''./ws'' hello_body) (ws_world, []) of
         (Inl e, s') \<Rightarrow> (internal_server_error e, s')
       | (Inr r, s') \<Rightarrow> (json (ResultReply r) 200, s'))"
    using valid
    by (simp add: api_def execute_handler_def hello_body_def destructured_timeout_def
        destructured_memoryLimit_def)
  show ?thesis
    unfolding ex hello_sandbox_options run
    by (simp add: ws_world_def ran_well_def mem_remove_def first_script_def)
qed

lemma run_empty:
  "run_sandbox mem_runtime hello_options (empty_world, []) =
     (Inr \<lparr>success = True, stdout = ''hi'', stderr = [], timedOut = False, error = None\<rparr>,
      (empty_world\<lparr>mem_dirs := [''./ws''], mem_random := Suc 0\<rparr>,
       [Stat ''./ws'', Mkdir ''./ws'', WriteTextFile first_script ''console.log(1)'',
        Command ''deno'' hello_args, Remove first_script]))"
  by (simp add: run_sandbox_def prepare_script_def
      run_script_eq deno_defs mem_defs hello_options_def script_path_first
      hello_sandbox_args [unfolded first_script_def]
      empty_world_def ran_well_def first_script_def)

lemma execute_hello_eq:
  "execute_handler rt ''./ws'' (Inr hello_body) s =
     (case run_sandbox rt hello_options s of
        (Inl e, s') \<Rightarrow> (internal_server_error e, s')
      | (Inr r, s') \<Rightarrow> (json (ResultReply r) 200, s'))"
  unfolding hello_sandbox_options [symmetric]
  by (simp add: execute_handler_def hello_body_def destructured_timeout_def
      destructured_memoryLimit_def)

lemma execute_empty:
  "execute_handler mem_runtime ''./ws'' (Inr hello_body) (empty_world, []) =
     (\<lparr>status = 200,
       reply = ResultReply \<lparr>success = True, stdout = ''hi'', stderr = [], timedOut = False,
                             error = None\<rparr>\<rparr>,
      (empty_world\<lparr>mem_dirs := [''./ws''], mem_random := Suc 0\<rparr>,
       [Stat ''./ws'', Mkdir ''./ws'', WriteTextFile first_script ''console.log(1)'',
        Command ''deno'' hello_args, Remove first_script]))"
  unfolding execute_hello_eq run_empty by (simp add: json_def)

lemma execute_readonly:
  "run_sandbox mem_runtime hello_options (readonly_world, []) =
     (Inl permission_denied,
      (readonly_world\<lparr>mem_random := Suc 0\<rparr>,
       [Stat ''./ws'', WriteTextFile first_script ''console.log(1)'']))"
  by (simp add: run_sandbox_def prepare_script_def
      deno_defs mem_defs hello_options_def script_path_first
      readonly_world_def ws_world_def first_script_def)

lemma run_ws_world:
  "run_sandbox mem_runtime hello_options (ws_world, []) =
     (Inr \<lparr>success = True, stdout = ''hi'', stderr = [], timedOut = False, error = None\<rparr>,
      (ws_world\<lparr>mem_random := Suc 0\<rparr>,
       [Stat ''./ws'', WriteTextFile first_script ''console.log(1)'',
        Command ''deno'' hello_args, Remove first_script]))"
  using run_hello [of ws_world "[]"]
  by (simp add: ws_world_def ran_well_def mem_remove_def first_script_def)

lemma empty_world_stat: "rt_stat mem_runtime ''./ws'' empty_world = Inl not_found"
  by (simp add: mem_defs empty_world_def)

lemma empty_world_mkdir: "fst (rt_mkdir mem_runtime ''./ws'' empty_world) = None"
  by (simp add: mem_defs empty_world_def)

lemma empty_world_script:
  "next_script_path mem_runtime ''./ws'' empty_world = first_script"
  by (simp add: next_script_path_def world_with_workspace_def empty_world_stat
      empty_world_mkdir script_path_first [symmetric])
     (simp add: mem_defs empty_world_def)

lemma empty_world_written:
  "fst (rt_writeTextFile mem_runtime first_script ''console.log(1)''
         (snd (rt_randomUUID mem_runtime (snd (rt_mkdir mem_runtime ''./ws'' empty_world))))) = None"
  by (simp add: mem_defs empty_world_def first_script_def)

lemma ws_world_stat:
  "rt_stat mem_runtime ''./ws'' ws_world =
     Inr \<lparr>st_isFile = False, st_isDirectory = True, st_size = 0, st_mtime = None\<rparr>"
  by (simp add: mem_defs ws_world_def)

lemma run_locking:
  "run_sandbox mem_runtime hello_options (locking_world, []) =
     (Inr \<lparr>success = True, stdout = ''hi'', stderr = [], timedOut = False, error = None\<rparr>,
      (locking_world\<lparr>mem_random := Suc 0,
         mem_files := (first_script, ''console.log(1)'') # mem_files ws_world,
         mem_readonly := [first_script]\<rparr>,
       [Stat ''./ws'', WriteTextFile first_script ''console.log(1)'',
        Command ''deno'' hello_args, Remove first_script]))"
  using run_hello [of locking_world "[]"]
  by (simp add: locking_world_def ws_world_def ran_well_def mem_remove_def)

lemma valid_ws: "\<not> invalid_workspace ''ws''"
  by (simp add: invalid_workspace_def)

lemma read_sub:
  "api mem_runtime ''ws''
     (Files (Inr \<lparr>body_action = JStr ''read'', body_filename = JStr ''sub/..a.txt'',
                  body_content = None\<rparr>)) (ws_world, []) =
   (\<lparr>status = 200, reply = ContentReply ''inner''\<rparr>,
    (ws_world, [Stat ''./ws'', ReadTextFile ''./ws/sub/a.txt'']))"
  by (simp add: api_def valid_ws files_handler_def file_path_def files_read_def deno_defs
      mem_defs ws_world_def json_def)

lemma download_a:
  "api mem_runtime ''ws'' (Download (Some ''a.txt'')) (ws_world, []) =
   (\<lparr>status = 200, reply = StreamReply ''a.txt'' ''old''\<rparr>,
    (ws_world, [Stat ''./ws/a.txt'', Open ''./ws/a.txt'']))"
  by (simp add: api_def valid_ws download_handler_def deno_defs
      mem_defs ws_world_def json_def)

section \<open>The workspace identifier\<close>

text \<open>
  C3. A request to any endpoint of the group whose workspace identifier is empty or
  contains \<^verbatim>\<open>..\<close>, a forward slash or a backslash is answered with status 400 and the
  error \<^verbatim>\<open>Invalid workspace name\<close>; the state is left as it was: the world is not
  changed and no storage call is logged.
\<close>

theorem invalid_workspace_rejected:
  "w = [] \<or> str_includes w ''..'' \<or> str_includes w ''/'' \<or> str_includes w [CHR 0x5C] \<Longrightarrow>
   status (fst (api rt w req s)) = 400 \<and>
   reply (fst (api rt w req s)) = ErrorReply ''Invalid workspace name'' None \<and>
   snd (api rt w req s) = s"
  by (simp add: api_def invalid_workspace_def json_def)

theorem invalid_workspace_rejected_witness:
  "status (fst (api mem_runtime [] Create (ws_world, []))) = 400 \<and>
   snd (api mem_runtime [] Create (ws_world, [])) = (ws_world, []) \<and>
   status (fst (api mem_runtime ''..'' (Download (Some ''a.txt'')) (ws_world, []))) = 400 \<and>
   snd (api mem_runtime ''..'' (Download (Some ''a.txt'')) (ws_world, [])) = (ws_world, []) \<and>
   status (fst (api mem_runtime ''ws/sub'' (Files (Inr \<lparr>body_action = JStr ''list'',
      body_filename = JUndefined, body_content = None\<rparr>)) (ws_world, []))) = 400 \<and>
   status (fst (api mem_runtime [CHR ''a'', CHR 0x5C, CHR ''b'']
      (Execute (Inr \<lparr>body_code = JStr ''1'', body_timeout = JUndefined,
         body_memoryLimit = JUndefined\<rparr>))
      (ws_world, []))) = 400"
proof -
  have h1: "[] = ([]::string) \<or> str_includes [] ''..'' \<or> str_includes [] ''/'' \<or> str_includes [] [CHR 0x5C]"
    by simp
  have h2: "''..'' = [] \<or> str_includes ''..'' ''..'' \<or> str_includes ''..'' ''/'' \<or> str_includes ''..'' [CHR 0x5C]"
    by simp
  have h3: "''ws/sub'' = [] \<or> str_includes ''ws/sub'' ''..'' \<or> str_includes ''ws/sub'' ''/'' \<or>
      str_includes ''ws/sub'' [CHR 0x5C]"
    by simp
  have h4: "[CHR ''a'', CHR 0x5C, CHR ''b''] = [] \<or> str_includes [CHR ''a'', CHR 0x5C, CHR ''b''] ''..'' \<or>
      str_includes [CHR ''a'', CHR 0x5C, CHR ''b''] ''/'' \<or>
      str_includes [CHR ''a'', CHR 0x5C, CHR ''b''] [CHR 0x5C]"
    by simp
  show ?thesis
    using invalid_workspace_rejected [OF h1, of mem_runtime Create "(ws_world, [])"]
      invalid_workspace_rejected [OF h2, of mem_runtime "Download (Some ''a.txt'')" "(ws_world, [])"]
      invalid_workspace_rejected [OF h3, of mem_runtime _ "(ws_world, [])"]
      invalid_workspace_rejected [OF h4, of mem_runtime _ "(ws_world, [])"]
    by simp
qed


section \<open>The result of an execution\<close>

text \<open>
  C5. When the script has been written and the abort timer fires before the subprocess is
  done, \<open>run_sandbox\<close> returns a result with \<^verbatim>\<open>success = false\<close>, \<^verbatim>\<open>timedOut = true\<close>,
  the error \<^verbatim>\<open>Timeout\<close>, and the fixed text \<^verbatim>\<open>Execution timed out\<close> as its stderr, not
  what the subprocess wrote to its error stream.
\<close>

theorem timeout_result:
  assumes "fst (prepare_script rt options s) = Inr scriptPath"
    and "fst (rt_command_output rt ''deno''
           (sandbox_args rt (workspace options) (memoryLimit options) scriptPath)
           (timeout options) (fst (snd (prepare_script rt options s)))) = oc"
    and "timer_fired oc"
  shows "fst (run_sandbox rt options s) =
           Inr \<lparr>success = False,
                stdout = (case oc of Resolved out a \<Rightarrow> out_stdout out | Rejected e \<Rightarrow> []),
                stderr = ''Execution timed out'', timedOut = True, error = Some ''Timeout''\<rparr>"
  unfolding run_sandbox_result [OF assms(1,2)] using assms(3) by (cases oc) auto

theorem timeout_result_witness:
  "fst (prepare_script mem_runtime hello_options (timed_out_world, [])) = Inr first_script \<and>
   timer_fired (mem_outcome timed_out_world) \<and>
   fst (run_sandbox mem_runtime hello_options (timed_out_world, [])) =
     Inr \<lparr>success = False, stdout = ''partial'', stderr = ''Execution timed out'',
          timedOut = True, error = Some ''Timeout''\<rparr>"
proof -
  have p: "prepare_script mem_runtime hello_options (timed_out_world, []) =
     (Inr first_script,
      (timed_out_world\<lparr>mem_random := Suc 0,
         mem_files := (first_script, ''console.log(1)'') # mem_files ws_world\<rparr>, 
       [] @ [Stat ''./ws'', WriteTextFile first_script ''console.log(1)'']))"
    by (rule prepare_first) (simp_all add: timed_out_world_def ws_world_def)
  have h1: "fst (prepare_script mem_runtime hello_options (timed_out_world, [])) = Inr first_script"
    by (simp add: p)
  have h2: "fst (rt_command_output mem_runtime ''deno''
           (sandbox_args mem_runtime (workspace hello_options) (memoryLimit hello_options) first_script)
           (timeout hello_options)
           (fst (snd (prepare_script mem_runtime hello_options (timed_out_world, []))))) =
           mem_outcome timed_out_world"
    unfolding p by (simp add: mem_runtime_def mem_command_output_def)
  have h3: "timer_fired (mem_outcome timed_out_world)"
    by (simp add: timed_out_world_def)
  show ?thesis
    using timeout_result [OF h1 h2 h3] h1 h3 by (simp add: timed_out_world_def)
qed

text \<open>
  C6, as the code has it. When the script has been written and \<^verbatim>\<open>command.output()\<close>
  rejects with an error that is not the AbortError of the timer, \<open>run_sandbox\<close> returns a
  result with \<^verbatim>\<open>success = false\<close>, \<^verbatim>\<open>timedOut = false\<close>, an empty stdout, and the text
  of the error both as the error field and as stderr.
\<close>

theorem launch_failure_result:
  assumes "fst (prepare_script rt options s) = Inr scriptPath"
    and "fst (rt_command_output rt ''deno''
           (sandbox_args rt (workspace options) (memoryLimit options) scriptPath)
           (timeout options) (fst (snd (prepare_script rt options s)))) = Rejected e"
    and "\<not> is_abort_error e"
  shows "fst (run_sandbox rt options s) =
           Inr \<lparr>success = False, stdout = [], stderr = error_to_string e,
                timedOut = False, error = Some (error_to_string e)\<rparr>"
  unfolding run_sandbox_result [OF assms(1,2)] using assms(3) by simp

theorem launch_failure_result_witness:
  "\<not> is_abort_error (JsError NotFound ''NotFound'' ''Failed to spawn deno'') \<and>
   fst (run_sandbox mem_runtime hello_options (spawn_failure_world, [])) =
     Inr \<lparr>success = False, stdout = [],
          stderr = error_to_string (JsError NotFound ''NotFound'' ''Failed to spawn deno''),
          timedOut = False,
          error = Some (error_to_string (JsError NotFound ''NotFound'' ''Failed to spawn deno''))\<rparr>"
proof -
  have h3: "\<not> is_abort_error (JsError NotFound ''NotFound'' ''Failed to spawn deno'')"
    by (simp add: is_abort_error_def)
  show ?thesis
    using launch_failure_result [OF spawn_failure_run h3] h3 by simp
qed

text \<open>
  The stderr of such a result is not empty: in a world where the subprocess cannot be
  started, it holds the text of the error.
\<close>

theorem launch_failure_stderr_counterexample:
  "mem_outcome spawn_failure_world = Rejected (JsError NotFound ''NotFound'' ''Failed to spawn deno'') \<and>
   fst (run_sandbox mem_runtime hello_options (spawn_failure_world, [])) =
     Inr \<lparr>success = False, stdout = [], stderr = ''NotFound: Failed to spawn deno'',
          timedOut = False, error = Some ''NotFound: Failed to spawn deno''\<rparr>"
  using run_sandbox_result [OF spawn_failure_run]
  by (simp add: is_abort_error_def error_to_string_def spawn_failure_world_def)

section \<open>The arguments of the subprocess\<close>

text \<open>
  C4. The claim fails for a workspace identifier that contains a comma. The identifier
  \<^verbatim>\<open>a,b\<close> passes the check of the middleware, and the subprocess of an execution in it is
  started with \<^verbatim>\<open>--allow-read=./a,b\<close> and \<^verbatim>\<open>--allow-write=./a,b\<close>: the value of each option is
  the workspace path as it is, comma included, where the command line of deno separates
  the paths of a list by commas. The other arguments are as the claim says: the heap
  ceiling of the request (50 when absent), and no option for the network, the
  environment or subprocesses.
\<close>

theorem comma_workspace_arguments:
  "\<not> invalid_workspace ''a,b'' \<and>
   snd (snd (api mem_runtime ''a,b'' (Execute (Inr hello_body)) (empty_world, []))) =
     [Stat ''./a,b'', Mkdir ''./a,b'',
      WriteTextFile ''./a,b/sandbox_00000000-0000-0000-0000-000000000000.ts'' ''console.log(1)'',
      Command ''deno''
        [''run'', ''--no-remote'', ''--no-npm'', ''--allow-read=./a,b'', ''--allow-write=./a,b'',
         ''--v8-flags=--max-old-space-size=50'',
         ''./a,b/sandbox_00000000-0000-0000-0000-000000000000.ts''],
      Remove ''./a,b/sandbox_00000000-0000-0000-0000-000000000000.ts'']"
proof -
  have valid: "\<not> invalid_workspace ''a,b''"
    by (simp add: invalid_workspace_def)
  have path: "script_path ''./a,b'' (uuid_string 0) =
      ''./a,b/sandbox_00000000-0000-0000-0000-000000000000.ts''"
    by (simp add: script_path_def script_name_def uuid_string_zero strip_trailing_slashes_def)
  have args: "sandbox_args mem_runtime ''./a,b'' (JNum (Finite 50))
      ''./a,b/sandbox_00000000-0000-0000-0000-000000000000.ts'' =
     [''run'', ''--no-remote'', ''--no-npm'', ''--allow-read=./a,b'', ''--allow-write=./a,b'',
      ''--v8-flags=--max-old-space-size=50'',
      ''./a,b/sandbox_00000000-0000-0000-0000-000000000000.ts'']"
    by (simp add: sandbox_args_def show_int_50)
  have opts: "sandbox_options ''./a,b'' hello_body =
      \<lparr>code = ''console.log(1)'', workspace = ''./a,b'', timeout = JNum (Finite 5000),
       memoryLimit = JNum (Finite 50)\<rparr>"
    by (simp add: sandbox_options_def hello_body_def destructured_timeout_def
        destructured_memoryLimit_def)
  have run: "snd (snd (run_sandbox mem_runtime
      \<lparr>code = ''console.log(1)'', workspace = ''./a,b'', timeout = JNum (Finite 5000),
       memoryLimit = JNum (Finite 50)\<rparr> (empty_world, []))) =
     [Stat ''./a,b'', Mkdir ''./a,b'',
      WriteTextFile (script_path ''./a,b'' (uuid_string 0)) ''console.log(1)'',
      Command ''deno'' (sandbox_args mem_runtime ''./a,b'' (JNum (Finite 50))
        (script_path ''./a,b'' (uuid_string 0))),
      Remove (script_path ''./a,b'' (uuid_string 0))]"
    unfolding path
    by (simp add: run_sandbox_def prepare_script_def run_script_eq deno_defs path
        mem_runtime_def mem_stat_def mem_mkdir_def mem_writeTextFile_def empty_world_def)
  have ex: "snd (snd (api mem_runtime ''a,b'' (Execute (Inr hello_body)) (empty_world, []))) =
      snd (snd (run_sandbox mem_runtime (sandbox_options ''./a,b'' hello_body) (empty_world, [])))"
    using valid
    by (simp add: api_def execute_handler_def hello_body_def destructured_timeout_def
        destructured_memoryLimit_def split: prod.splits sum.splits)
  show ?thesis
    unfolding ex opts run path args using valid by simp
qed

section \<open>The execute endpoint\<close>

text \<open>
  C9, as the code has it. Let the timeout of a request to the execute endpoint be the
  value of its body, 5000 when absent, and its memory limit the value of its body, 50
  when absent. The request is answered with status 400, the state left as it was (no
  storage call is made), when its code is missing, empty or not a string, when its
  timeout compares below 100 or above 30000, or when its memory limit compares below
  10 or above 500; for a timeout or a memory limit that is a number, these comparisons
  say that it is outside 100 to 30000, or outside 10 to 500. (The comparisons convert a
  value that is not a number: one that converts to NaN, such as a string that is not a
  numeral, is below nothing and above nothing, and passes.) Every other request runs
  \<open>run_sandbox\<close> with the code, the timeout and the memory limit: when it returns a
  result, the answer is status 200 with that result (success, stdout, stderr, timedOut
  and the optional error); when it throws, because the workspace directory or the
  script file could not be made, the answer is status 500.
\<close>

theorem execute_validation:
  assumes "t = (if body_timeout b = JUndefined then JNum (Finite 5000) else body_timeout b)"
    and "m = (if body_memoryLimit b = JUndefined then JNum (Finite 50) else body_memoryLimit b)"
  shows
  "(\<not> truthy (body_code b) \<or> js_typeof (body_code b) \<noteq> ''string'' \<or>
    less_than (ToNumber rt t) 100 \<or> greater_than (ToNumber rt t) 30000 \<or>
    less_than (ToNumber rt m) 10 \<or> greater_than (ToNumber rt m) 500 \<longrightarrow>
      status (fst (execute_handler rt ws (Inr b) s)) = 400 \<and>
      snd (execute_handler rt ws (Inr b) s) = s) \<and>
   (t = JNum (Finite x) \<longrightarrow>
      (less_than (ToNumber rt t) 100 \<or> greater_than (ToNumber rt t) 30000) =
      (x < 100 \<or> 30000 < x)) \<and>
   (m = JNum (Finite y) \<longrightarrow>
      (less_than (ToNumber rt m) 10 \<or> greater_than (ToNumber rt m) 500) =
      (y < 10 \<or> 500 < y)) \<and>
   (body_code b = JStr c \<and> c \<noteq> [] \<and>
    \<not> less_than (ToNumber rt t) 100 \<and> \<not> greater_than (ToNumber rt t) 30000 \<and>
    \<not> less_than (ToNumber rt m) 10 \<and> \<not> greater_than (ToNumber rt m) 500 \<longrightarrow>
      (run_sandbox rt \<lparr>code = c, workspace = ws, timeout = t, memoryLimit = m\<rparr> s = (Inr r, s') \<longrightarrow>
       execute_handler rt ws (Inr b) s = (\<lparr>status = 200, reply = ResultReply r\<rparr>, s')) \<and>
      (run_sandbox rt \<lparr>code = c, workspace = ws, timeout = t, memoryLimit = m\<rparr> s = (Inl e, s') \<longrightarrow>
       execute_handler rt ws (Inr b) s =
         (\<lparr>status = 500,
           reply = ErrorReply ''Internal server error'' (Some (error_to_string e))\<rparr>, s')))"
proof -
  have t: "destructured_timeout b = t" and m: "destructured_memoryLimit b = m"
    using assms by (simp_all add: destructured_timeout_def destructured_memoryLimit_def)
  show ?thesis
    by (auto simp: execute_handler_def sandbox_options_def t m json_def
        internal_server_error_def split: prod.splits sum.splits)
qed

theorem execute_validation_witness:
  "js_typeof (JNum (Finite 5)) \<noteq> ''string'' \<and>
   status (fst (execute_handler mem_runtime ''./ws''
     (Inr \<lparr>body_code = JNum (Finite 5), body_timeout = JUndefined, body_memoryLimit = JUndefined\<rparr>)
     (ws_world, []))) = 400 \<and>
   snd (execute_handler mem_runtime ''./ws''
     (Inr \<lparr>body_code = JNum (Finite 5), body_timeout = JUndefined, body_memoryLimit = JUndefined\<rparr>)
     (ws_world, [])) = (ws_world, []) \<and>
   less_than (ToNumber mem_runtime (JNum (Finite 50))) 100 \<and>
   status (fst (execute_handler mem_runtime ''./ws''
     (Inr \<lparr>body_code = JStr ''1'', body_timeout = JNum (Finite 50), body_memoryLimit = JUndefined\<rparr>)
     (ws_world, []))) = 400 \<and>
   greater_than (ToNumber mem_runtime (JNum (Finite 1000))) 500 \<and>
   status (fst (execute_handler mem_runtime ''./ws''
     (Inr \<lparr>body_code = JStr ''1'', body_timeout = JUndefined, body_memoryLimit = JNum (Finite 1000)\<rparr>)
     (ws_world, []))) = 400 \<and>
   greater_than (ToNumber mem_runtime (JStr ''99999'')) 30000 \<and>
   status (fst (execute_handler mem_runtime ''./ws''
     (Inr \<lparr>body_code = JStr ''1'', body_timeout = JStr ''99999'', body_memoryLimit = JUndefined\<rparr>)
     (ws_world, []))) = 400 \<and>
   execute_handler mem_runtime ''./ws'' (Inr hello_body) (ws_world, []) =
     (\<lparr>status = 200,
       reply = ResultReply \<lparr>success = True, stdout = ''hi'', stderr = [], timedOut = False,
                             error = None\<rparr>\<rparr>,
      (ws_world\<lparr>mem_random := Suc 0\<rparr>,
       [Stat ''./ws'', WriteTextFile first_script ''console.log(1)'',
        Command ''deno'' hello_args, Remove first_script])) \<and>
   ToNumber mem_runtime (JStr ''abc'') = NaN \<and>
   fst (execute_handler mem_runtime ''./ws''
     (Inr \<lparr>body_code = JStr ''console.log(1)'', body_timeout = JStr ''abc'',
            body_memoryLimit = JNum (Finite (21 / 2))\<rparr>) (ws_world, [])) =
     \<lparr>status = 200,
      reply = ResultReply \<lparr>success = True, stdout = ''hi'', stderr = [], timedOut = False,
                            error = None\<rparr>\<rparr> \<and>
   execute_handler mem_runtime ''./ws'' (Inr hello_body) (readonly_world, []) =
     (\<lparr>status = 500,
       reply = ErrorReply ''Internal server error'' (Some (error_to_string permission_denied))\<rparr>,
      (readonly_world\<lparr>mem_random := Suc 0\<rparr>,
       [Stat ''./ws'', WriteTextFile first_script ''console.log(1)'']))"
proof -
  have opts: "\<lparr>code = ''console.log(1)'', workspace = ''./ws'', timeout = JNum (Finite 5000),
       memoryLimit = JNum (Finite 50)\<rparr> = hello_options"
    by (simp add: hello_options_def)
  have d: "JNum (Finite 5000) =
      (if body_timeout hello_body = JUndefined then JNum (Finite 5000) else body_timeout hello_body)"
    "JNum (Finite 50) =
      (if body_memoryLimit hello_body = JUndefined then JNum (Finite 50)
       else body_memoryLimit hello_body)"
    "body_code hello_body = JStr ''console.log(1)''"
    by (simp_all add: hello_body_def)
  have nan: "ToNumber mem_runtime (JStr ''abc'') = NaN"
    by (simp add: mem_runtime_def mem_StringToNumber_def digit_value_def)
  have big: "ToNumber mem_runtime (JStr ''99999'') = Finite 99999"
    by (simp add: mem_runtime_def mem_StringToNumber_def digit_value_def)
  have odd: "run_sandbox mem_runtime
      \<lparr>code = ''console.log(1)'', workspace = ''./ws'', timeout = JStr ''abc'',
       memoryLimit = JNum (Finite (21 / 2))\<rparr> (ws_world, []) =
     (Inr \<lparr>success = True, stdout = ''hi'', stderr = [], timedOut = False, error = None\<rparr>,
      snd (run_sandbox mem_runtime
        \<lparr>code = ''console.log(1)'', workspace = ''./ws'', timeout = JStr ''abc'',
         memoryLimit = JNum (Finite (21 / 2))\<rparr> (ws_world, [])))"
  proof -
    have "fst (run_sandbox mem_runtime
      \<lparr>code = ''console.log(1)'', workspace = ''./ws'', timeout = JStr ''abc'',
       memoryLimit = JNum (Finite (21 / 2))\<rparr> (ws_world, [])) =
      Inr \<lparr>success = True, stdout = ''hi'', stderr = [], timedOut = False, error = None\<rparr>"
      by (simp add: run_sandbox_def prepare_script_def run_script_eq deno_defs script_path_first
          mem_runtime_def mem_stat_def mem_writeTextFile_def mem_command_output_def
          ws_world_def ran_well_def first_script_def)
    then show ?thesis
      by (metis prod.collapse)
  qed
  show ?thesis
    using
      execute_validation [where b = "\<lparr>body_code = JNum (Finite 5), body_timeout = JUndefined,
          body_memoryLimit = JUndefined\<rparr>"
        and t = "JNum (Finite 5000)" and m = "JNum (Finite 50)"
        and rt = mem_runtime and ws = "''./ws''" and s = "(ws_world, [])"]
      execute_validation [where b = "\<lparr>body_code = JStr ''1'', body_timeout = JNum (Finite 50),
          body_memoryLimit = JUndefined\<rparr>"
        and t = "JNum (Finite 50)" and m = "JNum (Finite 50)"
        and rt = mem_runtime and ws = "''./ws''" and s = "(ws_world, [])"]
      execute_validation [where b = "\<lparr>body_code = JStr ''1'', body_timeout = JUndefined,
          body_memoryLimit = JNum (Finite 1000)\<rparr>"
        and t = "JNum (Finite 5000)" and m = "JNum (Finite 1000)"
        and rt = mem_runtime and ws = "''./ws''" and s = "(ws_world, [])"]
      execute_validation [where b = "\<lparr>body_code = JStr ''1'', body_timeout = JStr ''99999'',
          body_memoryLimit = JUndefined\<rparr>"
        and t = "JStr ''99999''" and m = "JNum (Finite 50)"
        and rt = mem_runtime and ws = "''./ws''" and s = "(ws_world, [])"]
      execute_validation [OF d(1,2), where c = "''console.log(1)''" and rt = mem_runtime
        and ws = "''./ws''" and s = "(ws_world, [])"
        and r = "\<lparr>success = True, stdout = ''hi'', stderr = [], timedOut = False, error = None\<rparr>"
        and s' = "(ws_world\<lparr>mem_random := Suc 0\<rparr>,
          [Stat ''./ws'', WriteTextFile first_script ''console.log(1)'',
           Command ''deno'' hello_args, Remove first_script])"]
      execute_validation [where b = "\<lparr>body_code = JStr ''console.log(1)'', body_timeout = JStr ''abc'',
            body_memoryLimit = JNum (Finite (21 / 2))\<rparr>"
        and t = "JStr ''abc''" and m = "JNum (Finite (21 / 2))" and c = "''console.log(1)''"
        and rt = mem_runtime and ws = "''./ws''" and s = "(ws_world, [])"
        and r = "\<lparr>success = True, stdout = ''hi'', stderr = [], timedOut = False, error = None\<rparr>"
        and s' = "snd (run_sandbox mem_runtime
          \<lparr>code = ''console.log(1)'', workspace = ''./ws'', timeout = JStr ''abc'',
           memoryLimit = JNum (Finite (21 / 2))\<rparr> (ws_world, []))"]
      execute_validation [OF d(1,2), where c = "''console.log(1)''" and rt = mem_runtime
        and ws = "''./ws''" and s = "(readonly_world, [])"
        and s' = "(readonly_world\<lparr>mem_random := Suc 0\<rparr>,
          [Stat ''./ws'', WriteTextFile first_script ''console.log(1)''])"
        and e = permission_denied]
      d(3) odd
    unfolding opts run_ws_world execute_readonly nan big
    by simp
qed

text \<open>
  A code that is present and a string, but empty, is refused with status 400 although
  the timeout and the memory limit are in range.
\<close>

theorem empty_code_counterexample:
  "status (fst (execute_handler mem_runtime ''./ws''
      (Inr \<lparr>body_code = JStr [], body_timeout = JUndefined, body_memoryLimit = JUndefined\<rparr>)
      (ws_world, []))) = 400"
  by (simp add: execute_handler_def json_def)

section \<open>A workspace directory that does not exist\<close>

text \<open>
  C10. When the stat of the workspace directory throws, the files endpoint answers every
  action (list, read, create, update and delete alike, and any other truthy action)
  with status 404 and \<^verbatim>\<open>Workspace does not exist\<close>; the stat of the workspace is the only
  storage call it makes, and the world is left as it was. The execute endpoint, for a
  body that passes its checks (a code that is a non-empty string, a timeout that does
  not compare below 100 or above 30000, a memory limit that does not compare below 10
  or above 500), instead goes on to make the directory (its first two calls are the
  stat and the mkdir), and answers with status 200 when the mkdir and the writing of
  the script do not throw.
\<close>

theorem missing_workspace:
  "(truthy (body_action b) \<and> rt_stat rt ws (fst s) = Inl e \<longrightarrow>
      files_handler rt ws (Inr b) s =
        (\<lparr>status = 404, reply = ErrorReply ''Workspace does not exist'' None\<rparr>,
         (fst s, snd s @ [Stat ws]))) \<and>
   (rt_stat rt ws (fst s) = Inl e \<and> body_code x = JStr c \<and> c \<noteq> [] \<and>
    \<not> less_than (ToNumber rt (destructured_timeout x)) 100 \<and>
    \<not> greater_than (ToNumber rt (destructured_timeout x)) 30000 \<and>
    \<not> less_than (ToNumber rt (destructured_memoryLimit x)) 10 \<and>
    \<not> greater_than (ToNumber rt (destructured_memoryLimit x)) 500 \<longrightarrow>
      take 2 (drop (length (snd s)) (snd (snd (execute_handler rt ws (Inr x) s)))) =
        [Stat ws, Mkdir ws] \<and>
      (fst (rt_mkdir rt ws (fst s)) = None \<and>
       fst (rt_writeTextFile rt (next_script_path rt ws (fst s)) c
             (snd (rt_randomUUID rt (snd (rt_mkdir rt ws (fst s)))))) = None \<longrightarrow>
       status (fst (execute_handler rt ws (Inr x) s)) = 200))"
  by (auto simp: files_handler_def execute_handler_def run_sandbox_def prepare_script_def
      run_script_eq deno_defs json_def sandbox_options_def next_script_path_def
      world_with_workspace_def internal_server_error_def
      split: prod.splits sum.splits option.splits)

theorem missing_workspace_witness:
  "rt_stat mem_runtime ''./ws'' empty_world = Inl not_found \<and>
   files_handler mem_runtime ''./ws''
     (Inr \<lparr>body_action = JStr ''list'', body_filename = JUndefined, body_content = None\<rparr>)
     (empty_world, []) =
     (\<lparr>status = 404, reply = ErrorReply ''Workspace does not exist'' None\<rparr>,
      (empty_world, [Stat ''./ws''])) \<and>
   files_handler mem_runtime ''./ws''
     (Inr \<lparr>body_action = JStr ''read'', body_filename = JStr ''a.txt'', body_content = None\<rparr>)
     (empty_world, []) =
     (\<lparr>status = 404, reply = ErrorReply ''Workspace does not exist'' None\<rparr>,
      (empty_world, [Stat ''./ws''])) \<and>
   files_handler mem_runtime ''./ws''
     (Inr \<lparr>body_action = JStr ''create'', body_filename = JStr ''a.txt'', body_content = Some ''x''\<rparr>)
     (empty_world, []) =
     (\<lparr>status = 404, reply = ErrorReply ''Workspace does not exist'' None\<rparr>,
      (empty_world, [Stat ''./ws''])) \<and>
   files_handler mem_runtime ''./ws''
     (Inr \<lparr>body_action = JStr ''update'', body_filename = JStr ''a.txt'', body_content = Some ''x''\<rparr>)
     (empty_world, []) =
     (\<lparr>status = 404, reply = ErrorReply ''Workspace does not exist'' None\<rparr>,
      (empty_world, [Stat ''./ws''])) \<and>
   files_handler mem_runtime ''./ws''
     (Inr \<lparr>body_action = JStr ''delete'', body_filename = JStr ''a.txt'', body_content = None\<rparr>)
     (empty_world, []) =
     (\<lparr>status = 404, reply = ErrorReply ''Workspace does not exist'' None\<rparr>,
      (empty_world, [Stat ''./ws''])) \<and>
   fst (rt_mkdir mem_runtime ''./ws'' empty_world) = None \<and>
   take 2 (snd (snd (execute_handler mem_runtime ''./ws'' (Inr hello_body) (empty_world, [])))) =
     [Stat ''./ws'', Mkdir ''./ws''] \<and>
   status (fst (execute_handler mem_runtime ''./ws'' (Inr hello_body) (empty_world, []))) = 200 \<and>
   ''./ws'' \<in> set (mem_dirs (fst (snd (execute_handler mem_runtime ''./ws'' (Inr hello_body)
      (empty_world, [])))))"
proof -
  have ok: "body_code hello_body = JStr ''console.log(1)'' \<and> ''console.log(1)'' \<noteq> [] \<and>
    \<not> less_than (ToNumber mem_runtime (destructured_timeout hello_body)) 100 \<and>
    \<not> greater_than (ToNumber mem_runtime (destructured_timeout hello_body)) 30000 \<and>
    \<not> less_than (ToNumber mem_runtime (destructured_memoryLimit hello_body)) 10 \<and>
    \<not> greater_than (ToNumber mem_runtime (destructured_memoryLimit hello_body)) 500"
    by (simp add: hello_body_def destructured_timeout_def destructured_memoryLimit_def)
  have dir: "''./ws'' \<in> set (mem_dirs (fst (snd (execute_handler mem_runtime ''./ws''
      (Inr hello_body) (empty_world, [])))))"
    by (simp add: execute_empty)
  show ?thesis
    using
      missing_workspace [where rt = mem_runtime and ws = "''./ws''" and s = "(empty_world, [])"
        and e = not_found and x = hello_body and c = "''console.log(1)''"
        and b = "\<lparr>body_action = JStr ''list'', body_filename = JUndefined, body_content = None\<rparr>"]
      missing_workspace [where rt = mem_runtime and ws = "''./ws''" and s = "(empty_world, [])"
        and e = not_found
        and b = "\<lparr>body_action = JStr ''read'', body_filename = JStr ''a.txt'', body_content = None\<rparr>"]
      missing_workspace [where rt = mem_runtime and ws = "''./ws''" and s = "(empty_world, [])"
        and e = not_found
        and b = "\<lparr>body_action = JStr ''create'', body_filename = JStr ''a.txt'', body_content = Some ''x''\<rparr>"]
      missing_workspace [where rt = mem_runtime and ws = "''./ws''" and s = "(empty_world, [])"
        and e = not_found
        and b = "\<lparr>body_action = JStr ''update'', body_filename = JStr ''a.txt'', body_content = Some ''x''\<rparr>"]
      missing_workspace [where rt = mem_runtime and ws = "''./ws''" and s = "(empty_world, [])"
        and e = not_found
        and b = "\<lparr>body_action = JStr ''delete'', body_filename = JStr ''a.txt'', body_content = None\<rparr>"]
      ok dir
    by (simp add: empty_world_stat empty_world_mkdir empty_world_script empty_world_written)
qed

section \<open>Updating and creating a file\<close>

text \<open>
  C8. In an existing workspace, with a file name and a content: the action update on a
  file whose stat throws NotFound is answered with status 404 and \<^verbatim>\<open>File does not exist\<close>,
  nothing is written and the world is left as it was; on a file whose stat succeeds it
  writes the content to the file and, the write not throwing, answers with status 200.
  The action create makes no stat of the file: it writes the content, whether the file
  is there or not, and answers with status 200 when the write does not throw.
\<close>

theorem update_and_create:
  "(rt_stat rt ws (fst s) = Inr wi \<and> body_filename b = JStr f \<and> f \<noteq> [] \<and>
    body_content b = Some c \<and> body_action b = JStr ''update'' \<and>
    rt_stat rt (ws @ ''/'' @ replace_dotdot f) (fst s) = Inl e \<and> err_class e = NotFound \<longrightarrow>
      files_handler rt ws (Inr b) s =
        (\<lparr>status = 404, reply = ErrorReply ''File does not exist'' None\<rparr>,
         (fst s, snd s @ [Stat ws, Stat (ws @ ''/'' @ replace_dotdot f)]))) \<and>
   (rt_stat rt ws (fst s) = Inr wi \<and> body_filename b = JStr f \<and> f \<noteq> [] \<and>
    body_content b = Some c \<and> body_action b = JStr ''update'' \<and>
    rt_stat rt (ws @ ''/'' @ replace_dotdot f) (fst s) = Inr fi \<and>
    fst (rt_writeTextFile rt (ws @ ''/'' @ replace_dotdot f) c (fst s)) = None \<longrightarrow>
      files_handler rt ws (Inr b) s =
        (\<lparr>status = 200, reply = SuccessReply ''File updated successfully''\<rparr>,
         (snd (rt_writeTextFile rt (ws @ ''/'' @ replace_dotdot f) c (fst s)),
          snd s @ [Stat ws, Stat (ws @ ''/'' @ replace_dotdot f),
                   WriteTextFile (ws @ ''/'' @ replace_dotdot f) c]))) \<and>
   (rt_stat rt ws (fst s) = Inr wi \<and> body_filename b = JStr f \<and> f \<noteq> [] \<and>
    body_content b = Some c \<and> body_action b = JStr ''create'' \<and>
    fst (rt_writeTextFile rt (ws @ ''/'' @ replace_dotdot f) c (fst s)) = None \<longrightarrow>
      files_handler rt ws (Inr b) s =
        (\<lparr>status = 200, reply = SuccessReply ''File created successfully''\<rparr>,
         (snd (rt_writeTextFile rt (ws @ ''/'' @ replace_dotdot f) c (fst s)),
          snd s @ [Stat ws, WriteTextFile (ws @ ''/'' @ replace_dotdot f) c])))"
  by (simp add: files_handler_def file_path_def files_update_def files_create_def
      update_failed_def deno_defs json_def)

theorem update_and_create_witness:
  "rt_stat mem_runtime ''./ws/missing.txt'' ws_world = Inl not_found \<and>
   files_handler mem_runtime ''./ws''
     (Inr \<lparr>body_action = JStr ''update'', body_filename = JStr ''missing.txt'',
            body_content = Some ''new''\<rparr>) (ws_world, []) =
     (\<lparr>status = 404, reply = ErrorReply ''File does not exist'' None\<rparr>,
      (ws_world, [Stat ''./ws'', Stat ''./ws/missing.txt''])) \<and>
   rt_readTextFile mem_runtime ''./ws/a.txt'' ws_world = Inr ''old'' \<and>
   fst (files_handler mem_runtime ''./ws''
     (Inr \<lparr>body_action = JStr ''update'', body_filename = JStr ''a.txt'',
            body_content = Some ''new''\<rparr>) (ws_world, [])) =
     \<lparr>status = 200, reply = SuccessReply ''File updated successfully''\<rparr> \<and>
   rt_readTextFile mem_runtime ''./ws/a.txt''
     (fst (snd (files_handler mem_runtime ''./ws''
       (Inr \<lparr>body_action = JStr ''update'', body_filename = JStr ''a.txt'',
              body_content = Some ''new''\<rparr>) (ws_world, [])))) = Inr ''new'' \<and>
   fst (files_handler mem_runtime ''./ws''
     (Inr \<lparr>body_action = JStr ''create'', body_filename = JStr ''a.txt'',
            body_content = Some ''v2''\<rparr>) (ws_world, [])) =
     \<lparr>status = 200, reply = SuccessReply ''File created successfully''\<rparr> \<and>
   rt_readTextFile mem_runtime ''./ws/a.txt''
     (fst (snd (files_handler mem_runtime ''./ws''
       (Inr \<lparr>body_action = JStr ''create'', body_filename = JStr ''a.txt'',
              body_content = Some ''v2''\<rparr>) (ws_world, [])))) = Inr ''v2'' \<and>
   rt_stat mem_runtime ''./ws/b.txt'' ws_world = Inl not_found \<and>
   fst (files_handler mem_runtime ''./ws''
     (Inr \<lparr>body_action = JStr ''create'', body_filename = JStr ''b.txt'',
            body_content = Some ''v''\<rparr>) (ws_world, [])) =
     \<lparr>status = 200, reply = SuccessReply ''File created successfully''\<rparr> \<and>
   rt_readTextFile mem_runtime ''./ws/b.txt''
     (fst (snd (files_handler mem_runtime ''./ws''
       (Inr \<lparr>body_action = JStr ''create'', body_filename = JStr ''b.txt'',
              body_content = Some ''v''\<rparr>) (ws_world, [])))) = Inr ''v''"
  using
    update_and_create [where rt = mem_runtime and ws = "''./ws''" and s = "(ws_world, [])"
      and wi = "\<lparr>st_isFile = False, st_isDirectory = True, st_size = 0, st_mtime = None\<rparr>"
      and f = "''missing.txt''" and c = "''new''" and e = not_found
      and b = "\<lparr>body_action = JStr ''update'', body_filename = JStr ''missing.txt'',
            body_content = Some ''new''\<rparr>"]
    update_and_create [where rt = mem_runtime and ws = "''./ws''" and s = "(ws_world, [])"
      and wi = "\<lparr>st_isFile = False, st_isDirectory = True, st_size = 0, st_mtime = None\<rparr>"
      and f = "''a.txt''" and c = "''new''"
      and fi = "\<lparr>st_isFile = True, st_isDirectory = False, st_size = 3, st_mtime = None\<rparr>"
      and b = "\<lparr>body_action = JStr ''update'', body_filename = JStr ''a.txt'',
            body_content = Some ''new''\<rparr>"]
    update_and_create [where rt = mem_runtime and ws = "''./ws''" and s = "(ws_world, [])"
      and wi = "\<lparr>st_isFile = False, st_isDirectory = True, st_size = 0, st_mtime = None\<rparr>"
      and f = "''a.txt''" and c = "''v2''"
      and b = "\<lparr>body_action = JStr ''create'', body_filename = JStr ''a.txt'',
            body_content = Some ''v2''\<rparr>"]
    update_and_create [where rt = mem_runtime and ws = "''./ws''" and s = "(ws_world, [])"
      and wi = "\<lparr>st_isFile = False, st_isDirectory = True, st_size = 0, st_mtime = None\<rparr>"
      and f = "''b.txt''" and c = "''v''"
      and b = "\<lparr>body_action = JStr ''create'', body_filename = JStr ''b.txt'',
            body_content = Some ''v''\<rparr>"]
  by (simp add: mem_defs ws_world_def)

section \<open>Removing the script\<close>

text \<open>
  C7, as the code has it. Once the script file has been written, every way out of
  \<open>run_sandbox\<close> (the subprocess ended well or badly, was cut off by the timer, or could
  not be run) returns the result that the end of the subprocess determines, after a
  last storage call that removes the script file; what that removal throws is not part
  of the result, and the world is left as the removal leaves it, so the script file is
  gone whenever the removal has removed it.
\<close>

theorem script_removed_after_run:
  assumes "fst (prepare_script rt options s) = Inr p"
    and "rt_command_output rt ''deno'' (sandbox_args rt (workspace options) (memoryLimit options) p)
           (timeout options) (fst (snd (prepare_script rt options s))) = (oc, w)"
  shows "run_sandbox rt options s =
     (Inr (sandbox_result oc),
      (snd (rt_remove rt p w),
       snd (snd (prepare_script rt options s)) @
         [Command ''deno'' (sandbox_args rt (workspace options) (memoryLimit options) p),
          Remove p]))"
proof -
  obtain s1 where p: "prepare_script rt options s = (Inr p, s1)"
    using assms(1) by (cases "prepare_script rt options s") auto
  show ?thesis
    using assms(2) by (simp add: run_sandbox_def p run_script_eq)
qed

theorem script_removed_after_run_witness:
  "fst (prepare_script mem_runtime hello_options (ws_world, [])) = Inr first_script \<and>
   run_sandbox mem_runtime hello_options (ws_world, []) =
     (Inr \<lparr>success = True, stdout = ''hi'', stderr = [], timedOut = False, error = None\<rparr>,
      (ws_world\<lparr>mem_random := Suc 0\<rparr>,
       [Stat ''./ws'', WriteTextFile first_script ''console.log(1)'',
        Command ''deno'' hello_args, Remove first_script])) \<and>
   rt_stat mem_runtime first_script (ws_world\<lparr>mem_random := Suc 0\<rparr>) = Inl not_found"
proof -
  have p: "prepare_script mem_runtime hello_options (ws_world, []) =
     (Inr first_script,
      (ws_world\<lparr>mem_random := Suc 0,
         mem_files := (first_script, ''console.log(1)'') # mem_files ws_world\<rparr>,
       [] @ [Stat ''./ws'', WriteTextFile first_script ''console.log(1)'']))"
    by (rule prepare_first) (simp_all add: ws_world_def)
  have h1: "fst (prepare_script mem_runtime hello_options (ws_world, [])) = Inr first_script"
    by (simp add: p)
  have h2: "rt_command_output mem_runtime ''deno''
      (sandbox_args mem_runtime (workspace hello_options) (memoryLimit hello_options) first_script)
      (timeout hello_options) (fst (snd (prepare_script mem_runtime hello_options (ws_world, [])))) =
      (ran_well, ws_world\<lparr>mem_random := Suc 0,
         mem_files := (first_script, ''console.log(1)'') # mem_files ws_world\<rparr>)"
    unfolding p by (simp add: mem_runtime_def mem_command_output_def ws_world_def)
  have gone: "rt_stat mem_runtime first_script (ws_world\<lparr>mem_random := Suc 0\<rparr>) = Inl not_found"
    by (simp add: mem_defs ws_world_def first_script_def)
  show ?thesis
    using script_removed_after_run [OF h1 h2] h1 gone run_ws_world by simp
qed

text \<open>
  The script file can still be there after the call has returned: in a world where the
  subprocess makes its script read-only, the removal is tried last and fails, the result
  reports a success, and the stat of the script file still finds the file.
\<close>

theorem script_left_behind_counterexample:
  "fst (run_sandbox mem_runtime hello_options (locking_world, [])) =
     Inr \<lparr>success = True, stdout = ''hi'', stderr = [], timedOut = False, error = None\<rparr> \<and>
   last (snd (snd (run_sandbox mem_runtime hello_options (locking_world, [])))) =
     Remove first_script \<and>
   rt_stat mem_runtime first_script
     (fst (snd (run_sandbox mem_runtime hello_options (locking_world, [])))) =
     Inr \<lparr>st_isFile = True, st_isDirectory = False, st_size = 14, st_mtime = None\<rparr>"
  unfolding run_locking
  by (simp add: mem_defs locking_world_def ws_world_def first_script_def)

section \<open>Paths stay in the workspace\<close>

text \<open>
  C2. For every request to the group, except the list action of the files endpoint,
  every path that a logged call hands to the file system, and the script that a logged
  subprocess is told to run, is the directory \<^verbatim>\<open>./W\<close> of the requested workspace \<open>W\<close> itself
  or begins with \<^verbatim>\<open>./W/\<close>, the directory followed by a slash, and it contains no \<^verbatim>\<open>..\<close>,
  neither as a substring nor as a segment between slashes: it names the workspace
  directory or a place below it. This covers the script path of \<open>run_sandbox\<close>, the
  file path of the files endpoint and the path of the download endpoint. (A request
  whose workspace identifier is refused makes no call.)
\<close>

theorem paths_confined:
  assumes "c \<in> set (snd (snd (api rt w req (world, []))))"
    and "p \<in> set (call_paths c)"
    and "\<not> lists_directory req"
  shows "(p = ''./'' @ w \<or> prefix (''./'' @ w @ ''/'') p) \<and>
    \<not> str_includes p ''..'' \<and> ''..'' \<notin> set (segments p)"
proof -
  have valid: "\<not> invalid_workspace w"
    using assms(1) by (auto simp: api_def split: if_splits)
  have "p = ''./'' @ w \<or> (\<exists>x. \<not> str_includes x ''..'' \<and> p = ''./'' @ w @ ''/'' @ x)"
  proof (cases req)
    case (Execute body)
    then have "c \<in> set (snd (snd (execute_handler rt (''./'' @ w) body (world, []))))"
      using assms(1) valid by (simp add: api_def)
    then show ?thesis
      using execute_handler_paths [OF valid, of c rt body "(world, [])" p] assms(2)
        script_name_clean by auto
  next
    case (Files body)
    then have "c \<in> set (snd (snd (files_handler rt (''./'' @ w) body (world, []))))"
      using assms(1) valid by (simp add: api_def)
    moreover have "\<forall>b. body = Inr b \<longrightarrow> body_action b \<noteq> JStr ''list''"
      using assms(3) Files by auto
    ultimately show ?thesis
      using files_handler_paths [of c rt "''./'' @ w" body "(world, [])" p] assms(2)
        replace_dotdot_clean by auto
  next
    case (Download filename)
    then have "c \<in> set (snd (snd (download_handler rt (''./'' @ w) filename (world, []))))"
      using assms(1) valid by (simp add: api_def)
    then show ?thesis
      using download_handler_paths [of c rt "''./'' @ w" filename "(world, [])" p] assms(2)
      by auto
  next
    case Create
    then have "c \<in> set (snd (snd (create_handler rt (''./'' @ w) (world, []))))"
      using assms(1) valid by (simp add: api_def)
    then show ?thesis
      using create_handler_paths [of c rt "''./'' @ w" "(world, [])" p] assms(2)
      by auto
  qed
  then show ?thesis
  proof
    assume "p = ''./'' @ w"
    then show ?thesis
      using confined_workspace [OF valid] by simp
  next
    assume "\<exists>x. \<not> str_includes x ''..'' \<and> p = ''./'' @ w @ ''/'' @ x"
    then obtain x where x: "\<not> str_includes x ''..''" and p: "p = ''./'' @ w @ ''/'' @ x"
      by blast
    have "prefix ((''./'' @ w @ ''/'') @ []) ((''./'' @ w @ ''/'') @ x)"
      unfolding same_prefix_prefix by simp
    then have "prefix (''./'' @ w @ ''/'') p"
      unfolding p by simp
    then show ?thesis
      using confined_inside [OF valid x] unfolding p by blast
  qed
qed

theorem paths_confined_witness:
  "WriteTextFile first_script ''console.log(1)'' \<in>
     set (snd (snd (api mem_runtime ''ws'' (Execute (Inr hello_body)) (ws_world, [])))) \<and>
   prefix ''./ws/'' first_script \<and> \<not> str_includes first_script ''..'' \<and>
   ''..'' \<notin> set (segments first_script) \<and>
   Command ''deno'' hello_args \<in>
     set (snd (snd (api mem_runtime ''ws'' (Execute (Inr hello_body)) (ws_world, [])))) \<and>
   first_script \<in> set (call_paths (Command ''deno'' hello_args)) \<and>
   ReadTextFile ''./ws/sub/a.txt'' \<in>
     set (snd (snd (api mem_runtime ''ws''
       (Files (Inr \<lparr>body_action = JStr ''read'', body_filename = JStr ''sub/..a.txt'',
                    body_content = None\<rparr>)) (ws_world, [])))) \<and>
   prefix ''./ws/'' ''./ws/sub/a.txt'' \<and> ''..'' \<notin> set (segments ''./ws/sub/a.txt'') \<and>
   Open ''./ws/a.txt'' \<in>
     set (snd (snd (api mem_runtime ''ws'' (Download (Some ''a.txt'')) (ws_world, [])))) \<and>
   prefix ''./ws/'' ''./ws/a.txt'' \<and> ''..'' \<notin> set (segments ''./ws/a.txt'') \<and>
   Stat ''./ws'' \<in>
     set (snd (snd (api mem_runtime ''ws'' (Execute (Inr hello_body)) (ws_world, [])))) \<and>
   ''..'' \<notin> set (segments ''./ws'')"
proof -
  have e1: "WriteTextFile first_script ''console.log(1)'' \<in>
     set (snd (snd (api mem_runtime ''ws'' (Execute (Inr hello_body)) (ws_world, []))))"
    and e2: "Command ''deno'' hello_args \<in>
     set (snd (snd (api mem_runtime ''ws'' (Execute (Inr hello_body)) (ws_world, []))))"
    by (simp_all add: execute_hello)
  have p1: "first_script \<in> set (call_paths (WriteTextFile first_script ''console.log(1)''))"
    and p2: "first_script \<in> set (call_paths (Command ''deno'' hello_args))"
    by (simp_all add: hello_args_def)
  have n1: "\<not> lists_directory (Execute (Inr hello_body))"
    by simp
  have f1: "ReadTextFile ''./ws/sub/a.txt'' \<in>
     set (snd (snd (api mem_runtime ''ws''
       (Files (Inr \<lparr>body_action = JStr ''read'', body_filename = JStr ''sub/..a.txt'',
                    body_content = None\<rparr>)) (ws_world, []))))"
    by (simp add: read_sub)
  have p3: "''./ws/sub/a.txt'' \<in> set (call_paths (ReadTextFile ''./ws/sub/a.txt''))"
    by simp
  have n2: "\<not> lists_directory
       (Files (Inr \<lparr>body_action = JStr ''read'', body_filename = JStr ''sub/..a.txt'',
                    body_content = None\<rparr>))"
    by simp
  have d1: "Open ''./ws/a.txt'' \<in>
     set (snd (snd (api mem_runtime ''ws'' (Download (Some ''a.txt'')) (ws_world, []))))"
    by (simp add: download_a)
  have p4: "''./ws/a.txt'' \<in> set (call_paths (Open ''./ws/a.txt''))"
    by simp
  have n3: "\<not> lists_directory (Download (Some ''a.txt''))"
    by simp
  have e3: "Stat ''./ws'' \<in>
     set (snd (snd (api mem_runtime ''ws'' (Execute (Inr hello_body)) (ws_world, []))))"
    by (simp add: execute_hello)
  have p5: "''./ws'' \<in> set (call_paths (Stat ''./ws''))"
    by simp
  show ?thesis
    using paths_confined [OF e1 p1 n1] paths_confined [OF e2 p2 n1]
      paths_confined [OF f1 p3 n2] paths_confined [OF d1 p4 n3]
      paths_confined [OF e3 p5 n1] e1 e2 e3 p2 f1 d1
    by (simp add: first_script_def)
qed

section \<open>File names\<close>

text \<open>
  C1. The claim fails on the files endpoint, which removes every \<^verbatim>\<open>..\<close> from a file name
  and refuses nothing but a missing or empty one. The file name \<^verbatim>\<open>sub/..a.txt\<close> contains
  \<^verbatim>\<open>..\<close> and a slash: the action read is not refused, it reads the file \<^verbatim>\<open>./ws/sub/a.txt\<close>
  in a directory of the workspace and answers with status 200 and its content. The
  download endpoint refuses the same file name with status 400 before any storage
  call.
\<close>

theorem files_endpoint_reads_traversal_name:
  "str_includes ''sub/..a.txt'' ''..'' \<and> str_includes ''sub/..a.txt'' ''/'' \<and>
   api mem_runtime ''ws''
     (Files (Inr \<lparr>body_action = JStr ''read'', body_filename = JStr ''sub/..a.txt'',
                  body_content = None\<rparr>)) (ws_world, []) =
   (\<lparr>status = 200, reply = ContentReply ''inner''\<rparr>,
    (ws_world, [Stat ''./ws'', ReadTextFile ''./ws/sub/a.txt''])) \<and>
   api mem_runtime ''ws'' (Download (Some ''sub/..a.txt'')) (ws_world, []) =
   (\<lparr>status = 400, reply = ErrorReply ''Invalid filename'' None\<rparr>, (ws_world, []))"
proof -
  have "api mem_runtime ''ws'' (Download (Some ''sub/..a.txt'')) (ws_world, []) =
   (\<lparr>status = 400, reply = ErrorReply ''Invalid filename'' None\<rparr>, (ws_world, []))"
    by (simp add: api_def valid_ws download_handler_def json_def)
  then show ?thesis
    using read_sub by simp
qed

end
